theory Spec2Isabelle
  imports Main "HOL-Library.AList" "HOL-Library.Sublist"
begin

section \<open>JavaScript containers and conventions\<close>

text \<open>
  The extension host code of \<^verbatim>\<open>src/terminal-manager.ts\<close> keeps its state in JavaScript
  \<^verbatim>\<open>Map\<close>s, a \<^verbatim>\<open>Set\<close> and arrays. A \<^verbatim>\<open>Map\<close> is modelled as an association list in
  insertion order: \<^verbatim>\<open>get\<close> is \<^const>\<open>map_of\<close>, \<^verbatim>\<open>set\<close> is \<^const>\<open>AList.update\<close> (an
  existing key keeps its place, a new key goes to the end) and \<^verbatim>\<open>delete\<close> is
  \<^const>\<open>AList.delete\<close>. A \<^verbatim>\<open>Set\<close> of numbers is a list without the element added twice.
  Terminal and group identifiers are strings.
\<close>

type_synonym TerminalId = string

text \<open>A condition \<^verbatim>\<open>if (x)\<close> on a value of type \<^verbatim>\<open>string | undefined\<close> (or
  \<^verbatim>\<open>string | null\<close>) holds when the value is present and is not the empty string.\<close>

fun truthy :: "string option \<Rightarrow> bool" where
  "truthy None = False"
| "truthy (Some s) = (s \<noteq> [])"

text \<open>\<^verbatim>\<open>xs.indexOf(x)\<close>: the first position of \<open>x\<close>, \<open>None\<close> for \<^verbatim>\<open>-1\<close>.\<close>

fun indexOf :: "'a list \<Rightarrow> 'a \<Rightarrow> nat option" where
  "indexOf [] x = None"
| "indexOf (y # ys) x = (if y = x then Some 0 else map_option Suc (indexOf ys x))"

text \<open>\<^verbatim>\<open>xs.splice(i, 1)\<close> and \<^verbatim>\<open>xs.splice(i, 0, x)\<close>; a start beyond the end is
  clamped to the end, as \<^const>\<open>take\<close> and \<^const>\<open>drop\<close> do.\<close>

definition splice_delete :: "nat \<Rightarrow> 'a list \<Rightarrow> 'a list" where
  "splice_delete i xs = take i xs @ drop (Suc i) xs"

definition splice_insert :: "nat \<Rightarrow> 'a \<Rightarrow> 'a list \<Rightarrow> 'a list" where
  "splice_insert i x xs = take i xs @ x # drop i xs"

text \<open>The idiom \<^verbatim>\<open>const i = xs.indexOf(x); if (i >= 0) xs.splice(i, 1)\<close>.\<close>

definition removeFirst :: "'a \<Rightarrow> 'a list \<Rightarrow> 'a list" where
  "removeFirst x xs = (case indexOf xs x of Some i \<Rightarrow> splice_delete i xs | None \<Rightarrow> xs)"

text \<open>The idiom \<^verbatim>\<open>const i = xs.indexOf(anchor); if (i >= 0) xs.splice(i + 1, 0, x);
  else xs.push(x)\<close>.\<close>

definition insertAfterOrPush :: "'a \<Rightarrow> 'a \<Rightarrow> 'a list \<Rightarrow> 'a list" where
  "insertAfterOrPush anchor x xs =
     (case indexOf xs anchor of Some i \<Rightarrow> splice_insert (Suc i) x xs | None \<Rightarrow> xs @ [x])"

definition Set_add :: "'a \<Rightarrow> 'a list \<Rightarrow> 'a list" where
  "Set_add x xs = (if x \<in> set xs then xs else xs @ [x])"

definition Set_delete :: "'a \<Rightarrow> 'a list \<Rightarrow> 'a list" where
  "Set_delete x xs = removeAll x xs"

text \<open>Decimal rendering of a number inside a template literal such as
  \<^verbatim>\<open>`Terminal ${index}`\<close>.\<close>

definition digit :: "nat \<Rightarrow> char" where
  "digit n = ''0123456789'' ! n"

function string_of_nat :: "nat \<Rightarrow> string" where
  "string_of_nat n =
     (if n < 10 then [digit n]
      else string_of_nat (n div 10) @ [digit (n mod 10)])"
  by pat_completeness auto
termination
  by (relation "measure id") auto

declare string_of_nat.simps [simp del]

definition string_of_int :: "int \<Rightarrow> string" where
  "string_of_int i = (if i < 0 then CHR ''-'' # string_of_nat (nat (- i)) else string_of_nat (nat i))"

section \<open>Data model of the terminal manager\<close>

datatype TerminalLocation = Panel | Editor

text \<open>\<^verbatim>\<open>TerminalGroup\<close> of \<^verbatim>\<open>src/types/messages.ts\<close>.\<close>

record TerminalGroup =
  id_g :: string
  terminals_g :: "TerminalId list"

text \<open>
  \<^verbatim>\<open>TerminalInstance\<close> is declared in \<^verbatim>\<open>src/types/terminal.ts\<close>; its fields are the ones the
  object literals of \<^verbatim>\<open>terminal-manager.ts\<close> write. \<open>readyTimeout\<close> records whether the
  readiness timer is armed; \<open>config_cwd\<close> is the \<^verbatim>\<open>cwd\<close> of the \<^verbatim>\<open>config\<close> field.
\<close>

record TerminalInstance =
  id_t :: TerminalId
  location :: TerminalLocation
  config_cwd :: "string option"
  ready :: bool
  dataQueue :: "string list"
  title :: string
  index :: "int option"
  icon :: "string option"
  colorKey :: "string option"
  color :: "string option"
  currentCwd :: "string option"
  readyTimeout :: bool

record PersistedTerminalState =
  id_p :: TerminalId
  index_p :: "int option"
  userTitle :: "string option"
  icon_p :: "string option"
  colorKey_p :: "string option"
  color_p :: "string option"
  groupId_p :: "string option"
  orderIndex :: nat

record PersistedWorkspaceState =
  terminals_w :: "PersistedTerminalState list"
  groups_w :: "TerminalGroup list"
  activeTerminalId_w :: "TerminalId option"
  listWidth_w :: int

text \<open>The messages of \<^verbatim>\<open>PanelExtensionMessage\<close> that the modelled operations post.
  \<open>AddTab\<close> carries \<^verbatim>\<open>terminalId, title, makeActive, icon, color, groupId, insertAfter\<close>.\<close>

datatype PanelExtensionMessage =
    PtyData TerminalId string
  | UpdateCwd TerminalId string
  | AddTab TerminalId string bool "string option" "string option" "string option" "TerminalId option"
  | RemoveTab TerminalId
  | ActivateTab TerminalId
  | FocusTerminal
  | HydrateState int
  | SplitTerminal TerminalId TerminalId string TerminalId
  | UnsplitTerminal TerminalId
  | JoinTerminal TerminalId string
  | GroupCreated TerminalGroup
  | GroupDestroyed string
  | ReorderTerminals "TerminalId list"

text \<open>Calls into the host that are not panel messages.\<close>

datatype HostCall =
    ShowErrorMessage string
  | ShowInformationMessage string
  | ExecuteCommand string
  | PtyKill TerminalId
  | EditorPostMessage TerminalId PanelExtensionMessage
  | EditorPanelDispose TerminalId

datatype error = TypeError | URIError

datatype SpawnResult = SpawnOk | SpawnFailed string

text \<open>
  The collaborators the manager calls but does not define: the PTY service's \<^verbatim>\<open>spawn\<close>,
  the workspace folder, the theme colours, the notification setting, the constant
  \<^verbatim>\<open>MAX_DATA_QUEUE_SIZE\<close> of \<^verbatim>\<open>terminal-utils\<close>, and the JavaScript built-ins used by
  \<^verbatim>\<open>parseOSC7\<close> and \<^verbatim>\<open>parseOSC9\<close>: the two regular-expression matches (returning the first
  capture group) and \<^verbatim>\<open>decodeURIComponent\<close>, which throws \<^verbatim>\<open>URIError\<close> on a malformed
  escape (\<open>None\<close>).
\<close>

record host =
  spawn :: "TerminalId \<Rightarrow> string option \<Rightarrow> SpawnResult"
  workspaceCwd :: "string option"
  theme :: "string \<Rightarrow> string option"
  notifications :: bool
  MAX_DATA_QUEUE_SIZE :: nat
  matchOSC7 :: "string \<Rightarrow> string option"
  matchOSC9 :: "string \<Rightarrow> string option"
  decodeURIComponent :: "string \<Rightarrow> string option"

text \<open>
  The fields of \<^verbatim>\<open>class TerminalManager\<close>, followed by the effects it has on its
  surroundings: \<open>posted\<close> are the messages handed to \<^verbatim>\<open>panelProvider.postMessage\<close>, oldest
  first, \<open>hostLog\<close> the other host calls, and \<open>workspaceState\<close> the snapshot last written by
  \<^verbatim>\<open>savePersistedState\<close>.
\<close>

record manager =
  terminals :: "(TerminalId \<times> TerminalInstance) list"
  groups :: "(string \<times> TerminalGroup) list"
  terminalToGroup :: "(TerminalId \<times> string) list"
  terminalOrder :: "TerminalId list"
  activeTerminalId :: "TerminalId option"
  listWidth :: int
  persistedTerminals :: "PersistedTerminalState list"
  usedIndices :: "int list"
  posted :: "PanelExtensionMessage list"
  hostLog :: "HostCall list"
  workspaceState :: "PersistedWorkspaceState option"

definition postMessage :: "PanelExtensionMessage \<Rightarrow> manager \<Rightarrow> manager" where
  "postMessage m s = s\<lparr>posted := posted s @ [m]\<rparr>"

definition hostCall :: "HostCall \<Rightarrow> manager \<Rightarrow> manager" where
  "hostCall c s = s\<lparr>hostLog := hostLog s @ [c]\<rparr>"

section \<open>Ordinal allocation\<close>

text \<open>The loop of \<^verbatim>\<open>getNextIndex\<close>: \<^verbatim>\<open>while (this.usedIndices.has(index)) index++\<close>.\<close>

function getNextIndex_loop :: "int list \<Rightarrow> int \<Rightarrow> int" where
  "getNextIndex_loop used i = (if i \<in> set used then getNextIndex_loop used (i + 1) else i)"
  by pat_completeness auto
termination
proof (relation "measure (\<lambda>(used, i). length (filter (\<lambda>x. i \<le> x) used))")
  show "wf (measure (\<lambda>(used, i). length (filter (\<lambda>x. i \<le> x) used)))"
    by simp
next
  fix used :: "int list" and i :: int
  assume mem: "i \<in> set used"
  have "filter (\<lambda>x. i + 1 \<le> x) used = filter (\<lambda>x. i + 1 \<le> x) (filter (\<lambda>x. i \<le> x) used)"
    by (simp add: conj_commute) (rule filter_cong, auto)
  moreover have "length (filter (\<lambda>x. i + 1 \<le> x) (filter (\<lambda>x. i \<le> x) used))
      < length (filter (\<lambda>x. i \<le> x) used)"
    by (rule length_filter_less [of i]) (use mem in auto)
  ultimately show "((used, i + 1), (used, i))
      \<in> measure (\<lambda>(used, i). length (filter (\<lambda>x. i \<le> x) used))"
    by simp
qed

declare getNextIndex_loop.simps [simp del]

definition getNextIndex :: "manager \<Rightarrow> int \<times> manager" where
  "getNextIndex s =
     (let idx = getNextIndex_loop (usedIndices s) 1
      in (idx, s\<lparr>usedIndices := Set_add idx (usedIndices s)\<rparr>))"

definition releaseIndex :: "int option \<Rightarrow> manager \<Rightarrow> manager" where
  "releaseIndex idx s =
     (case idx of
        Some n \<Rightarrow> s\<lparr>usedIndices := Set_delete n (usedIndices s)\<rparr>
      | None \<Rightarrow> s)"

section \<open>PTY output\<close>

definition parseOSC7 :: "host \<Rightarrow> string \<Rightarrow> error + string option" where
  "parseOSC7 h data =
     (case matchOSC7 h data of
        Some m \<Rightarrow> (case decodeURIComponent h m of
                     Some p \<Rightarrow> Inr (Some p)
                   | None \<Rightarrow> Inl URIError)
      | None \<Rightarrow> Inr None)"

definition parseOSC9 :: "host \<Rightarrow> string \<Rightarrow> string option" where
  "parseOSC9 h data = matchOSC9 h data"

definition handleOSC9Notification :: "host \<Rightarrow> string \<Rightarrow> manager \<Rightarrow> manager" where
  "handleOSC9Notification h message s =
     (if \<not> notifications h then s else hostCall (ShowInformationMessage message) s)"

definition postToTerminal :: "TerminalId \<Rightarrow> PanelExtensionMessage \<Rightarrow> manager \<Rightarrow> manager" where
  "postToTerminal i m s =
     (case map_of (terminals s) i of
        None \<Rightarrow> s
      | Some instance \<Rightarrow>
          if \<not> ready instance then s
          else if location instance = Editor then hostCall (EditorPostMessage i m) s
          else postMessage m s)"

text \<open>\<^verbatim>\<open>handlePtyData\<close>. An exception of \<^verbatim>\<open>parseOSC7\<close> leaves the function before
  anything has been written, so the error value stands for the unchanged state.\<close>

definition handlePtyData :: "host \<Rightarrow> TerminalId \<Rightarrow> string \<Rightarrow> manager \<Rightarrow> error + manager" where
  "handlePtyData h i data s =
     (case map_of (terminals s) i of
        None \<Rightarrow> Inr s
      | Some instance \<Rightarrow>
          (case parseOSC7 h data of
             Inl e \<Rightarrow> Inl e
           | Inr cwd \<Rightarrow>
               let (instance1, s1) =
                     (if truthy cwd
                      then (let inst' = instance\<lparr>currentCwd := cwd\<rparr>;
                                t = s\<lparr>terminals := AList.update i inst' (terminals s)\<rparr>
                            in (inst', if ready inst' then postToTerminal i (UpdateCwd i (the cwd)) t else t))
                      else (instance, s));
                   notification = parseOSC9 h data;
                   s2 = (if truthy notification
                         then handleOSC9Notification h (the notification) s1 else s1)
               in if \<not> ready instance1
                  then (if length (dataQueue instance1) < MAX_DATA_QUEUE_SIZE h
                        then Inr (s2\<lparr>terminals := AList.update i
                                   (instance1\<lparr>dataQueue := dataQueue instance1 @ [data]\<rparr>) (terminals s2)\<rparr>)
                        else Inr s2)
                  else Inr (postToTerminal i (PtyData i data) s2)))"

section \<open>Creating and destroying terminals\<close>

definition isPanel :: "manager \<Rightarrow> TerminalId \<Rightarrow> bool" where
  "isPanel s i = (case map_of (terminals s) i of Some instance \<Rightarrow> location instance = Panel | None \<Rightarrow> False)"

definition getTerminalIds :: "manager \<Rightarrow> TerminalId list" where
  "getTerminalIds s = filter (isPanel s) (terminalOrder s)"

text \<open>\<^verbatim>\<open>[...this.terminals.values()].filter((t) => t.location === "panel")\<close>.\<close>

definition panelTerminals :: "manager \<Rightarrow> TerminalInstance list" where
  "panelTerminals s = filter (\<lambda>t. location t = Panel) (map snd (terminals s))"

definition persistedOf :: "manager \<Rightarrow> nat \<times> TerminalId \<Rightarrow> PersistedTerminalState option" where
  "persistedOf s p =
     (case map_of (terminals s) (snd p) of
        None \<Rightarrow> None
      | Some instance \<Rightarrow>
          if location instance = Panel
          then Some \<lparr>id_p = snd p, index_p = index instance, userTitle = Some (title instance),
                     icon_p = icon instance, colorKey_p = colorKey instance, color_p = color instance,
                     groupId_p = map_of (terminalToGroup s) (snd p), orderIndex = fst p\<rparr>
          else None)"

definition savePersistedState :: "manager \<Rightarrow> manager" where
  "savePersistedState s =
     s\<lparr>workspaceState := Some
          \<lparr>terminals_w = List.map_filter (persistedOf s) (enumerate 0 (terminalOrder s)),
           groups_w = map snd (groups s),
           activeTerminalId_w = activeTerminalId s,
           listWidth_w = listWidth s\<rparr>\<rparr>"

definition spawnPty :: "host \<Rightarrow> TerminalId \<Rightarrow> string option \<Rightarrow> manager \<Rightarrow> bool \<times> manager" where
  "spawnPty h i cwd s =
     (case spawn h i cwd of
        SpawnFailed e \<Rightarrow> (False, hostCall (ShowErrorMessage (''Failed to start terminal: '' @ e)) s)
      | SpawnOk \<Rightarrow> (True, s))"

definition newPanelInstance :: "TerminalId \<Rightarrow> string option \<Rightarrow> string \<Rightarrow> int \<Rightarrow> TerminalInstance" where
  "newPanelInstance i cwd t idx =
     \<lparr>id_t = i, location = Panel, config_cwd = cwd, ready = False, dataQueue = [], title = t,
      index = Some idx, icon = None, colorKey = None, color = None, currentCwd = None,
      readyTimeout = False\<rparr>"

text \<open>\<^verbatim>\<open>createPanelTerminal\<close>; \<open>newId\<close> is the value \<^verbatim>\<open>createTerminalId()\<close> returns.\<close>

definition createPanelTerminal ::
  "host \<Rightarrow> TerminalId \<Rightarrow> string option \<Rightarrow> manager \<Rightarrow> TerminalId option \<times> manager" where
  "createPanelTerminal h newId cwd s =
     (let (idx, s1) = getNextIndex s;
          t = ''Terminal '' @ string_of_int idx;
          instance = newPanelInstance newId cwd t idx;
          s2 = s1\<lparr>terminals := AList.update newId instance (terminals s1)\<rparr>;
          (ok, s3) = spawnPty h newId cwd s2
      in if \<not> ok
         then (None, releaseIndex (Some idx) (s3\<lparr>terminals := AList.delete newId (terminals s3)\<rparr>))
         else
           let s4 = s3\<lparr>terminals := AList.update newId (instance\<lparr>readyTimeout := True\<rparr>) (terminals s3)\<rparr>;
               s5 = postMessage (AddTab newId t True None None None None) s4;
               s6 = s5\<lparr>terminalOrder := terminalOrder s5 @ [newId], activeTerminalId := Some newId\<rparr>
           in (Some newId, savePersistedState s6))"

text \<open>The block of \<^verbatim>\<open>destroyTerminal\<close> that removes the terminal from its group.\<close>

definition leaveGroup :: "TerminalId \<Rightarrow> manager \<Rightarrow> manager" where
  "leaveGroup i s =
     (let groupId = map_of (terminalToGroup s) i
      in if truthy groupId
         then
           let gid = the groupId;
               s1 = (case map_of (groups s) gid of
                       None \<Rightarrow> s
                     | Some grp \<Rightarrow>
                         let ts = removeFirst i (terminals_g grp)
                         in if length ts \<le> 1
                            then postMessage (GroupDestroyed gid)
                                   (s\<lparr>terminalToGroup := fold AList.delete ts (terminalToGroup s),
                                      groups := AList.delete gid (groups s)\<rparr>)
                            else postMessage (GroupCreated \<lparr>id_g = gid, terminals_g = ts\<rparr>)
                                   (s\<lparr>groups := AList.update gid (grp\<lparr>terminals_g := ts\<rparr>) (groups s)\<rparr>))
           in s1\<lparr>terminalToGroup := AList.delete i (terminalToGroup s1)\<rparr>
         else s)"

definition destroyTerminal :: "TerminalId \<Rightarrow> manager \<Rightarrow> manager" where
  "destroyTerminal i s =
     (case map_of (terminals s) i of
        None \<Rightarrow> s
      | Some instance \<Rightarrow>
          let s1 = s\<lparr>terminals := AList.delete i (terminals s)\<rparr>;
              s2 = releaseIndex (index instance) s1;
              s3 = s2\<lparr>terminalOrder := removeFirst i (terminalOrder s2)\<rparr>;
              s4 = leaveGroup i s3;
              s5 = (if activeTerminalId s4 = Some i
                    then let remaining = getTerminalIds s4
                         in s4\<lparr>activeTerminalId :=
                                 (if length remaining > 0 then Some (last remaining) else None)\<rparr>
                    else s4);
              s6 = hostCall (PtyKill i) s5
          in if location instance = Editor
             then hostCall (EditorPanelDispose i) s6
             else
               let s7 = postMessage (RemoveTab i) s6;
                   s8 = (if length (panelTerminals s7) = 0
                         then hostCall (ExecuteCommand ''workbench.action.closePanel'') s7
                         else s7)
               in savePersistedState s8)"

section \<open>Split, unsplit and join\<close>

definition createPanelTerminalForSplit ::
  "host \<Rightarrow> TerminalId \<Rightarrow> string option \<Rightarrow> TerminalId \<Rightarrow> manager \<Rightarrow> TerminalId option \<times> manager" where
  "createPanelTerminalForSplit h newId cwd insertAfter s =
     (let (idx, s1) = getNextIndex s;
          t = ''Terminal '' @ string_of_int idx;
          instance = newPanelInstance newId cwd t idx;
          s2 = s1\<lparr>terminals := AList.update newId instance (terminals s1)\<rparr>;
          (ok, s3) = spawnPty h newId cwd s2
      in if \<not> ok
         then (None, releaseIndex (Some idx) (s3\<lparr>terminals := AList.delete newId (terminals s3)\<rparr>))
         else
           let s4 = s3\<lparr>terminals := AList.update newId (instance\<lparr>readyTimeout := True\<rparr>) (terminals s3)\<rparr>;
               s5 = postMessage (AddTab newId t False None None None (Some insertAfter)) s4
           in (Some newId, s5\<lparr>terminalOrder := insertAfterOrPush insertAfter newId (terminalOrder s5)\<rparr>))"

text \<open>
  \<^verbatim>\<open>handleSplitTerminal\<close>; \<open>newGroupId\<close> and \<open>newId\<close> are the values of the two calls of
  \<^verbatim>\<open>createTerminalId()\<close>. The lookup \<^verbatim>\<open>this.groups.get(groupId)!\<close> may yield \<^verbatim>\<open>undefined\<close>;
  reading \<^verbatim>\<open>group.terminals\<close> then throws, which the first component reports together
  with the state reached.
\<close>

definition handleSplitTerminal ::
  "host \<Rightarrow> string \<Rightarrow> TerminalId \<Rightarrow> TerminalId \<Rightarrow> manager \<Rightarrow> error option \<times> manager" where
  "handleSplitTerminal h newGroupId newId sourceTerminalId s =
     (case map_of (terminals s) sourceTerminalId of
        None \<Rightarrow> (None, s)
      | Some sourceInstance \<Rightarrow>
          if location sourceInstance \<noteq> Panel then (None, s)
          else
            let existing = map_of (terminalToGroup s) sourceTerminalId;
                (groupId, grp, s1) =
                   (if truthy existing
                    then (the existing, map_of (groups s) (the existing), s)
                    else
                      let g = \<lparr>id_g = newGroupId, terminals_g = [sourceTerminalId]\<rparr>
                      in (newGroupId, Some g,
                          s\<lparr>groups := AList.update newGroupId g (groups s),
                            terminalToGroup := AList.update sourceTerminalId newGroupId (terminalToGroup s)\<rparr>));
                cwd = (case currentCwd sourceInstance of Some c \<Rightarrow> Some c | None \<Rightarrow> workspaceCwd h);
                (created, s2) = createPanelTerminalForSplit h newId cwd sourceTerminalId s1
            in if \<not> truthy created then (None, s2)
               else
                 (case grp of
                    None \<Rightarrow> (Some TypeError, s2)
                  | Some g \<Rightarrow>
                      let insertIndex = (case indexOf (terminals_g g) sourceTerminalId of
                                           Some k \<Rightarrow> k + 1 | None \<Rightarrow> 0);
                          ts = splice_insert insertIndex (the created) (terminals_g g);
                          s3 = s2\<lparr>groups := AList.update groupId (g\<lparr>terminals_g := ts\<rparr>) (groups s2),
                                  terminalToGroup := AList.update (the created) groupId (terminalToGroup s2)\<rparr>;
                          s4 = postMessage (GroupCreated \<lparr>id_g = groupId, terminals_g = ts\<rparr>) s3;
                          s5 = postMessage (SplitTerminal (the created) (the created) groupId sourceTerminalId) s4
                      in (None, savePersistedState s5)))"

text \<open>The part shared by \<^verbatim>\<open>handleUnsplitTerminal\<close> and
  \<^verbatim>\<open>handleUnsplitTerminalWithoutReorder\<close>: destroy the group when at most one member is
  left, otherwise announce its new member list.\<close>

definition dissolveOrUpdate :: "string \<Rightarrow> TerminalId list \<Rightarrow> manager \<Rightarrow> manager" where
  "dissolveOrUpdate gid ts s =
     (if length ts \<le> 1
      then postMessage (GroupDestroyed gid)
             (s\<lparr>terminalToGroup := fold AList.delete ts (terminalToGroup s),
                groups := AList.delete gid (groups s)\<rparr>)
      else postMessage (GroupCreated \<lparr>id_g = gid, terminals_g = ts\<rparr>) s)"

definition handleUnsplitTerminal :: "TerminalId \<Rightarrow> manager \<Rightarrow> manager" where
  "handleUnsplitTerminal terminalId s =
     (let groupId = map_of (terminalToGroup s) terminalId
      in if \<not> truthy groupId then s
         else
           (case map_of (groups s) (the groupId) of
              None \<Rightarrow> s
            | Some grp \<Rightarrow>
                let gid = the groupId;
                    ts = removeFirst terminalId (terminals_g grp);
                    s1 = s\<lparr>groups := AList.update gid (grp\<lparr>terminals_g := ts\<rparr>) (groups s),
                           terminalToGroup := AList.delete terminalId (terminalToGroup s)\<rparr>;
                    lastGroupTerminal = (if length ts > 0 then Some (last ts) else None);
                    order1 = removeFirst terminalId (terminalOrder s1);
                    order2 = (if truthy lastGroupTerminal
                              then insertAfterOrPush (the lastGroupTerminal) terminalId order1
                              else order1 @ [terminalId]);
                    s2 = s1\<lparr>terminalOrder := order2\<rparr>;
                    s3 = dissolveOrUpdate gid ts s2;
                    s4 = postMessage (UnsplitTerminal terminalId) s3;
                    s5 = postMessage (ReorderTerminals (terminalOrder s4)) s4
                in savePersistedState s5))"

definition handleUnsplitTerminalWithoutReorder :: "TerminalId \<Rightarrow> manager \<Rightarrow> manager" where
  "handleUnsplitTerminalWithoutReorder terminalId s =
     (let groupId = map_of (terminalToGroup s) terminalId
      in if \<not> truthy groupId then s
         else
           (case map_of (groups s) (the groupId) of
              None \<Rightarrow> s
            | Some grp \<Rightarrow>
                let gid = the groupId;
                    ts = removeFirst terminalId (terminals_g grp);
                    s1 = s\<lparr>groups := AList.update gid (grp\<lparr>terminals_g := ts\<rparr>) (groups s),
                           terminalToGroup := AList.delete terminalId (terminalToGroup s)\<rparr>;
                    s2 = dissolveOrUpdate gid ts s1
                in postMessage (UnsplitTerminal terminalId) s2))"

definition handleJoinTerminal :: "TerminalId \<Rightarrow> string \<Rightarrow> manager \<Rightarrow> manager" where
  "handleJoinTerminal terminalId targetGroupId s =
     (case map_of (terminals s) terminalId of
        None \<Rightarrow> s
      | Some instance \<Rightarrow>
          if location instance \<noteq> Panel then s
          else
            let currentGroupId = map_of (terminalToGroup s) terminalId;
                s1 = (if truthy currentGroupId
                      then handleUnsplitTerminalWithoutReorder terminalId s else s)
            in (case map_of (groups s1) targetGroupId of
                  None \<Rightarrow> s1
                | Some targetGroup \<Rightarrow>
                    let ts = terminals_g targetGroup @ [terminalId];
                        s2 = s1\<lparr>groups := AList.update targetGroupId (targetGroup\<lparr>terminals_g := ts\<rparr>) (groups s1),
                                terminalToGroup := AList.update terminalId targetGroupId (terminalToGroup s1)\<rparr>;
                        order1 = removeFirst terminalId (terminalOrder s2);
                        order2 = (if length ts \<ge> 2
                                  then insertAfterOrPush (ts ! (length ts - 2)) terminalId order1
                                  else order1 @ [terminalId]);
                        s3 = s2\<lparr>terminalOrder := order2\<rparr>;
                        s4 = postMessage (GroupCreated \<lparr>id_g = targetGroupId, terminals_g = ts\<rparr>) s3;
                        s5 = postMessage (JoinTerminal terminalId targetGroupId) s4;
                        s6 = postMessage (ReorderTerminals (terminalOrder s5)) s5
                    in savePersistedState s6))"

section \<open>Persistence and hydration\<close>

definition initialManager :: manager where
  "initialManager =
     \<lparr>terminals = [], groups = [], terminalToGroup = [], terminalOrder = [],
      activeTerminalId = None, listWidth = 180, persistedTerminals = [], usedIndices = [],
      posted = [], hostLog = [], workspaceState = None\<rparr>"

text \<open>\<^verbatim>\<open>loadPersistedState\<close>, applied by the constructor to the stored snapshot, if any.\<close>

definition loadPersistedState :: "PersistedWorkspaceState option \<Rightarrow> manager \<Rightarrow> manager" where
  "loadPersistedState stored s =
     (case stored of
        None \<Rightarrow> s
      | Some state \<Rightarrow>
          s\<lparr>listWidth := listWidth_w state,
            persistedTerminals := terminals_w state,
            usedIndices := fold (\<lambda>terminal used. case index_p terminal of
                                   Some n \<Rightarrow> Set_add n used | None \<Rightarrow> used)
                             (terminals_w state) (usedIndices s),
            groups := fold (\<lambda>g gs. AList.update (id_g g) \<lparr>id_g = id_g g, terminals_g = terminals_g g\<rparr> gs)
                        (groups_w state) (groups s),
            activeTerminalId := activeTerminalId_w state\<rparr>)"

text \<open>The table \<^verbatim>\<open>TERMINAL_COLORS\<close>: stored key, theme key, fallback colour.\<close>

definition TERMINAL_COLORS :: "(string \<times> string \<times> string) list" where
  "TERMINAL_COLORS =
     [(''red'', ''red'', ''#f14c4c''),
      (''orange'', ''brightRed'', ''#f5a623''),
      (''yellow'', ''yellow'', ''#e2c541''),
      (''green'', ''green'', ''#4fb86e''),
      (''blue'', ''blue'', ''#3b8eea''),
      (''purple'', ''brightMagenta'', ''#a95ec7''),
      (''magenta'', ''magenta'', ''#e3699e''),
      (''cyan'', ''cyan'', ''#4ec9b0'')]"

definition resolveColorKey :: "host \<Rightarrow> string \<Rightarrow> string option" where
  "resolveColorKey h key =
     (case map_of TERMINAL_COLORS key of
        None \<Rightarrow> None
      | Some (themeKey, fallback) \<Rightarrow>
          (case theme h themeKey of Some c \<Rightarrow> Some c | None \<Rightarrow> Some fallback))"

definition createPanelTerminalForHydration ::
  "host \<Rightarrow> PersistedTerminalState \<Rightarrow> manager \<Rightarrow> TerminalId option \<times> manager" where
  "createPanelTerminalForHydration h persisted s =
     (let i = id_p persisted;
          (idx, s1) = (case index_p persisted of Some n \<Rightarrow> (n, s) | None \<Rightarrow> getNextIndex s);
          t = (case userTitle persisted of Some u \<Rightarrow> u | None \<Rightarrow> ''Terminal '' @ string_of_int idx);
          ck = colorKey_p persisted;
          c = (if truthy ck then resolveColorKey h (the ck) else color_p persisted);
          instance = (newPanelInstance i None t idx)\<lparr>icon := icon_p persisted, colorKey := ck, color := c\<rparr>;
          s2 = s1\<lparr>terminals := AList.update i instance (terminals s1)\<rparr>;
          (ok, s3) = spawnPty h i (workspaceCwd h) s2
      in if \<not> ok
         then (None, releaseIndex (Some idx) (s3\<lparr>terminals := AList.delete i (terminals s3)\<rparr>))
         else
           let s4 = s3\<lparr>terminals := AList.update i (instance\<lparr>readyTimeout := True\<rparr>) (terminals s3)\<rparr>;
               s5 = postMessage (AddTab i t False (icon_p persisted) c (groupId_p persisted) None) s4
           in (Some i, s5\<lparr>terminalOrder := terminalOrder s5 @ [i]\<rparr>))"

text \<open>The body of the first loop of \<^verbatim>\<open>handlePanelReady\<close>.\<close>

definition hydrateOne :: "host \<Rightarrow> PersistedTerminalState \<Rightarrow> manager \<Rightarrow> manager" where
  "hydrateOne h persisted s =
     (let (created, s1) = createPanelTerminalForHydration h persisted s
      in if truthy created \<and> truthy (groupId_p persisted)
         then s1\<lparr>terminalToGroup := AList.update (the created) (the (groupId_p persisted)) (terminalToGroup s1)\<rparr>
         else s1)"

text \<open>The body of the second loop: one \<^verbatim>\<open>group-created\<close> message per stored group.\<close>

definition announceGroup :: "TerminalGroup \<Rightarrow> manager \<Rightarrow> manager" where
  "announceGroup g s = postMessage (GroupCreated \<lparr>id_g = id_g g, terminals_g = terminals_g g\<rparr>) s"

text \<open>\<^verbatim>\<open>handlePanelReady\<close>; \<open>newId\<close> is the identifier \<^verbatim>\<open>createTerminalId()\<close> would give
  the automatically created terminal.\<close>

definition handlePanelReady :: "host \<Rightarrow> TerminalId \<Rightarrow> manager \<Rightarrow> manager" where
  "handlePanelReady h newId s =
     (let s0 = postMessage (HydrateState (listWidth s)) s;
          savedActiveId = activeTerminalId s0;
          s1 = fold (hydrateOne h) (persistedTerminals s0) s0;
          s2 = fold announceGroup (map snd (groups s1)) s1;
          s3 = s2\<lparr>persistedTerminals := []\<rparr>
      in if length (panelTerminals s3) = 0
         then snd (createPanelTerminal h newId None s3)
         else if truthy savedActiveId \<and> map_of (terminals s3) (the savedActiveId) \<noteq> None
              then postMessage FocusTerminal (postMessage (ActivateTab (the savedActiveId)) s3)
              else s3)"

section \<open>The terminal list of the panel webview\<close>

text \<open>\<^verbatim>\<open>TerminalListItem\<close> and \<^verbatim>\<open>TerminalListState\<close> of \<^verbatim>\<open>src/webview/terminal-list.ts\<close>
  (the multi-select version); \<^verbatim>\<open>render()\<close> only repaints and is left out.\<close>

record TerminalListItem =
  id_i :: TerminalId
  title_i :: string
  icon_i :: "string option"
  color_i :: "string option"
  groupId_i :: "string option"
  hasBell :: "bool option"

record TerminalListState =
  items :: "TerminalListItem list"
  groups_l :: "TerminalGroup list"
  listWidth_l :: int
  selectedTerminalIds :: "TerminalId list"
  focusedTerminalId :: "TerminalId option"
  lastSelectedId :: "TerminalId option"
  activeTerminalId_l :: "TerminalId option"

text \<open>\<^verbatim>\<open>const item = items.find((i) => i.id === id); if (item) item.hasBell = false\<close>.\<close>

fun clearBell :: "TerminalId \<Rightarrow> TerminalListItem list \<Rightarrow> TerminalListItem list" where
  "clearBell i [] = []"
| "clearBell i (x # xs) = (if id_i x = i then x\<lparr>hasBell := Some False\<rparr> # xs else x # clearBell i xs)"

definition setSelected :: "TerminalId option \<Rightarrow> TerminalListState \<Rightarrow> TerminalListState" where
  "setSelected i st =
     (let st1 = st\<lparr>selectedTerminalIds := []\<rparr>;
          st2 = (if truthy i
                 then st1\<lparr>selectedTerminalIds := Set_add (the i) (selectedTerminalIds st1),
                          lastSelectedId := i\<rparr>
                 else st1\<lparr>lastSelectedId := None\<rparr>)
      in st2\<lparr>focusedTerminalId := None\<rparr>)"

definition setFocused :: "TerminalId option \<Rightarrow> TerminalListState \<Rightarrow> TerminalListState" where
  "setFocused i st =
     (let st1 = st\<lparr>focusedTerminalId := i\<rparr>
      in if truthy i then st1\<lparr>items := clearBell (the i) (items st1)\<rparr> else st1)"

definition setActive :: "TerminalId option \<Rightarrow> TerminalListState \<Rightarrow> TerminalListState" where
  "setActive i st =
     (let st1 = st\<lparr>activeTerminalId_l := i\<rparr>
      in if truthy i
         then
           let st2 = st1\<lparr>items := clearBell (the i) (items st1)\<rparr>;
               st3 = st2\<lparr>selectedTerminalIds := []\<rparr>
           in st3\<lparr>selectedTerminalIds := Set_add (the i) (selectedTerminalIds st3), lastSelectedId := i\<rparr>
         else st1)"

section \<open>Messages that change what is shown\<close>

text \<open>The messages by which the manager makes the webview select or focus a terminal:
  \<^verbatim>\<open>add-tab\<close> with \<^verbatim>\<open>makeActive\<close>, \<^verbatim>\<open>activate-tab\<close> and \<^verbatim>\<open>focus-terminal\<close>.\<close>

fun selectsOrFocuses :: "PanelExtensionMessage \<Rightarrow> bool" where
  "selectsOrFocuses (AddTab i t makeActive ic c g a) = makeActive"
| "selectsOrFocuses (ActivateTab i) = True"
| "selectsOrFocuses FocusTerminal = True"
| "selectsOrFocuses m = False"

section \<open>Concrete configurations\<close>

text \<open>A host whose PTY service starts every process, with a queue cap of two chunks, and
  terminal managers built from the initial one by the operations above.\<close>

definition hostOk :: host where
  "hostOk =
     \<lparr>spawn = (\<lambda>i cwd. SpawnOk), workspaceCwd = None, theme = (\<lambda>k. None), notifications = True,
      MAX_DATA_QUEUE_SIZE = 2, matchOSC7 = (\<lambda>d. None), matchOSC9 = (\<lambda>d. None),
      decodeURIComponent = Some\<rparr>"

definition oneTerminal :: manager where
  "oneTerminal = snd (createPanelTerminal hostOk ''a'' None initialManager)"

definition threeTerminals :: manager where
  "threeTerminals =
     snd (createPanelTerminal hostOk ''c'' None
       (snd (createPanelTerminal hostOk ''b'' None oneTerminal)))"

text \<open>\<open>oneTerminal\<close> after its terminal, not yet ready, has received the chunks \<open>x\<close> and
  \<open>y\<close>: the queue is at the cap of \<open>hostOk\<close>.\<close>

definition buffered :: "string \<Rightarrow> manager \<Rightarrow> manager" where
  "buffered d s = (case handlePtyData hostOk ''a'' d s of Inr s' \<Rightarrow> s' | Inl e \<Rightarrow> s)"

definition fullQueue :: manager where
  "fullQueue = buffered ''y'' (buffered ''x'' oneTerminal)"

text \<open>A host on which only the process of terminal \<open>a\<close> starts.\<close>

definition hostOnlyA :: host where
  "hostOnlyA = hostOk\<lparr>spawn := (\<lambda>i cwd. if i = ''a'' then SpawnOk else SpawnFailed ''ENOENT'')\<rparr>"

text \<open>Terminal \<open>a\<close> split once: the group \<open>g\<close> with members \<open>a\<close> and \<open>b\<close>.\<close>

definition twoInGroup :: manager where
  "twoInGroup = snd (handleSplitTerminal hostOk ''g'' ''b'' ''a'' oneTerminal)"

text \<open>A stored snapshot with the group \<open>g\<close> of \<open>a\<close> and \<open>b\<close>, a manager constructed from it, and
  a host on which the process of \<open>a\<close> does not start.\<close>

definition snapshotAB :: PersistedWorkspaceState where
  "snapshotAB =
     \<lparr>terminals_w =
        [\<lparr>id_p = ''a'', index_p = Some 1, userTitle = Some ''Terminal 1'', icon_p = None,
          colorKey_p = None, color_p = None, groupId_p = Some ''g'', orderIndex = 0\<rparr>,
         \<lparr>id_p = ''b'', index_p = Some 2, userTitle = Some ''Terminal 2'', icon_p = None,
          colorKey_p = None, color_p = None, groupId_p = Some ''g'', orderIndex = 1\<rparr>],
      groups_w = [\<lparr>id_g = ''g'', terminals_g = [''a'', ''b'']\<rparr>],
      activeTerminalId_w = Some ''b'',
      listWidth_w = 180\<rparr>"

definition restoredAB :: manager where
  "restoredAB = loadPersistedState (Some snapshotAB) initialManager"

definition hostWithoutA :: host where
  "hostWithoutA = hostOk\<lparr>spawn := (\<lambda>i cwd. if i = ''a'' then SpawnFailed ''ENOENT'' else SpawnOk)\<rparr>"

text \<open>
  A chunk carrying an OSC 7 sequence whose path ends in a truncated percent escape, and a
  host whose built-ins take their values at that chunk: the regular expression of
  \<^verbatim>\<open>parseOSC7\<close> matches it with first group \<^verbatim>\<open>/%E0%A4%A\<close>, on which
  \<^verbatim>\<open>decodeURIComponent\<close> throws \<^verbatim>\<open>URIError\<close>.
\<close>

definition malformedChunk :: string where
  "malformedChunk = CHR 0x1B # '']7;file://h/%E0%A4%A'' @ [CHR 0x07]"

definition hostMalformed :: host where
  "hostMalformed =
     hostOk\<lparr>matchOSC7 := (\<lambda>d. if d = malformedChunk then Some ''/%E0%A4%A'' else None),
            decodeURIComponent := (\<lambda>u. if u = ''/%E0%A4%A'' then None else Some u)\<rparr>"

text \<open>The manager restored from \<open>snapshotAB\<close> once the panel has reported ready on
  \<open>hostWithoutA\<close>: \<open>b\<close> is live, the group \<open>g\<close> still lists \<open>a\<close> and \<open>b\<close>.\<close>

definition hydratedB :: manager where
  "hydratedB = handlePanelReady hostWithoutA ''n'' restoredAB"

text \<open>A terminal list showing \<open>a\<close> and \<open>b\<close>, with \<open>a\<close> selected and focused.\<close>

definition listFocusedA :: TerminalListState where
  "listFocusedA =
     \<lparr>items = [\<lparr>id_i = ''a'', title_i = ''Terminal 1'', icon_i = None, color_i = None,
                 groupId_i = None, hasBell = None\<rparr>,
                \<lparr>id_i = ''b'', title_i = ''Terminal 2'', icon_i = None, color_i = None,
                 groupId_i = None, hasBell = None\<rparr>],
      groups_l = [], listWidth_l = 180, selectedTerminalIds = [''a''],
      focusedTerminalId = Some ''a'', lastSelectedId = Some ''a'', activeTerminalId_l = Some ''a''\<rparr>"

section \<open>Auxiliary facts\<close>


lemma removeFirst_remove1: "removeFirst x xs = remove1 x xs"
proof (induction xs)
  case Nil
  show ?case by (simp add: removeFirst_def)
next
  case (Cons y ys)
  then show ?case
    by (cases "indexOf ys x") (auto simp: removeFirst_def splice_delete_def)
qed

lemma indexOf_None_iff: "indexOf xs x = None \<longleftrightarrow> x \<notin> set xs"
  by (induction xs) auto

lemma indexOf_Some_nth: "indexOf xs x = Some i \<Longrightarrow> i < length xs \<and> xs ! i = x \<and> x \<notin> set (take i xs)"
proof (induction xs arbitrary: i)
  case Nil
  then show ?case by simp
next
  case (Cons y ys)
  then show ?case
    by (cases i) (auto split: if_splits)
qed

lemma loop_not_used: "getNextIndex_loop used i \<notin> set used"
  by (induction used i rule: getNextIndex_loop.induct) (subst getNextIndex_loop.simps, simp)

lemma loop_ge: "i \<le> getNextIndex_loop used i"
proof (induction used i rule: getNextIndex_loop.induct)
  case (1 used i)
  then show ?case by (cases "i \<in> set used") (subst getNextIndex_loop.simps, simp)+
qed

lemma loop_below_used: "i \<le> k \<Longrightarrow> k < getNextIndex_loop used i \<Longrightarrow> k \<in> set used"
proof (induction used i rule: getNextIndex_loop.induct)
  case (1 used i)
  show ?case
  proof (cases "i \<in> set used")
    case True
    show ?thesis
    proof (cases "k = i")
      case True
      with \<open>i \<in> set used\<close> show ?thesis by simp
    next
      case False
      with "1.prems" have "i + 1 \<le> k" by simp
      moreover from "1.prems" True have "k < getNextIndex_loop used (i + 1)"
        by (subst (asm) getNextIndex_loop.simps) simp
      ultimately show ?thesis using "1.IH" True by blast
    qed
  next
    case False
    with "1.prems" show ?thesis by (subst (asm) getNextIndex_loop.simps) simp
  qed
qed

lemma loop_smallest_free:
  assumes "i \<le> n" "n \<notin> set used" "\<forall>k. i \<le> k \<and> k < n \<longrightarrow> k \<in> set used"
  shows "getNextIndex_loop used i = n"
proof -
  let ?r = "getNextIndex_loop used i"
  have r: "?r \<notin> set used" "i \<le> ?r" by (rule loop_not_used, rule loop_ge)
  have "\<not> ?r < n" using assms(3) r by blast
  moreover have "\<not> n < ?r" using loop_below_used [OF assms(1)] assms(2) by blast
  ultimately show ?thesis by simp
qed

lemma postMessage_fields [simp]:
  "terminals (postMessage m s) = terminals s"
  "groups (postMessage m s) = groups s"
  "terminalToGroup (postMessage m s) = terminalToGroup s"
  "terminalOrder (postMessage m s) = terminalOrder s"
  "activeTerminalId (postMessage m s) = activeTerminalId s"
  "usedIndices (postMessage m s) = usedIndices s"
  "posted (postMessage m s) = posted s @ [m]"
  "hostLog (postMessage m s) = hostLog s"
  "workspaceState (postMessage m s) = workspaceState s"
  by (simp_all add: postMessage_def)

lemma hostCall_fields [simp]:
  "terminals (hostCall c s) = terminals s"
  "groups (hostCall c s) = groups s"
  "terminalToGroup (hostCall c s) = terminalToGroup s"
  "terminalOrder (hostCall c s) = terminalOrder s"
  "activeTerminalId (hostCall c s) = activeTerminalId s"
  "usedIndices (hostCall c s) = usedIndices s"
  "posted (hostCall c s) = posted s"
  "hostLog (hostCall c s) = hostLog s @ [c]"
  "workspaceState (hostCall c s) = workspaceState s"
  by (simp_all add: hostCall_def)

lemma savePersistedState_fields [simp]:
  "terminals (savePersistedState s) = terminals s"
  "groups (savePersistedState s) = groups s"
  "terminalToGroup (savePersistedState s) = terminalToGroup s"
  "terminalOrder (savePersistedState s) = terminalOrder s"
  "activeTerminalId (savePersistedState s) = activeTerminalId s"
  "usedIndices (savePersistedState s) = usedIndices s"
  "posted (savePersistedState s) = posted s"
  "hostLog (savePersistedState s) = hostLog s"
  by (simp_all add: savePersistedState_def)

lemma releaseIndex_fields [simp]:
  "terminals (releaseIndex n s) = terminals s"
  "groups (releaseIndex n s) = groups s"
  "terminalToGroup (releaseIndex n s) = terminalToGroup s"
  "terminalOrder (releaseIndex n s) = terminalOrder s"
  "activeTerminalId (releaseIndex n s) = activeTerminalId s"
  "posted (releaseIndex n s) = posted s"
  "hostLog (releaseIndex n s) = hostLog s"
  "workspaceState (releaseIndex n s) = workspaceState s"
  by (simp_all add: releaseIndex_def split: option.splits)

lemma getNextIndex_fields [simp]:
  "terminals (snd (getNextIndex s)) = terminals s"
  "groups (snd (getNextIndex s)) = groups s"
  "terminalToGroup (snd (getNextIndex s)) = terminalToGroup s"
  "terminalOrder (snd (getNextIndex s)) = terminalOrder s"
  "activeTerminalId (snd (getNextIndex s)) = activeTerminalId s"
  "posted (snd (getNextIndex s)) = posted s"
  "hostLog (snd (getNextIndex s)) = hostLog s"
  "workspaceState (snd (getNextIndex s)) = workspaceState s"
  by (simp_all add: getNextIndex_def Let_def)

lemma leaveGroup_fields [simp]:
  "terminals (leaveGroup i s) = terminals s"
  "terminalOrder (leaveGroup i s) = terminalOrder s"
  "activeTerminalId (leaveGroup i s) = activeTerminalId s"
  "usedIndices (leaveGroup i s) = usedIndices s"
  "hostLog (leaveGroup i s) = hostLog s"
  "workspaceState (leaveGroup i s) = workspaceState s"
  by (simp_all add: leaveGroup_def Let_def split: option.splits)

lemma spawnPty_fields [simp]:
  "terminals (snd (spawnPty h i cwd s)) = terminals s"
  "groups (snd (spawnPty h i cwd s)) = groups s"
  "terminalToGroup (snd (spawnPty h i cwd s)) = terminalToGroup s"
  "terminalOrder (snd (spawnPty h i cwd s)) = terminalOrder s"
  "activeTerminalId (snd (spawnPty h i cwd s)) = activeTerminalId s"
  "usedIndices (snd (spawnPty h i cwd s)) = usedIndices s"
  "posted (snd (spawnPty h i cwd s)) = posted s"
  "workspaceState (snd (spawnPty h i cwd s)) = workspaceState s"
  by (simp_all add: spawnPty_def split: SpawnResult.splits)

lemma spawnPty_ok [simp]: "fst (spawnPty h i cwd s) = (spawn h i cwd = SpawnOk)"
  by (simp add: spawnPty_def split: SpawnResult.splits)

lemma usedIndices_destroyTerminal:
  "map_of (terminals s) i = Some inst \<Longrightarrow>
   usedIndices (destroyTerminal i s) = (case index inst of Some n \<Rightarrow> Set_delete n (usedIndices s) | None \<Rightarrow> usedIndices s)"
  by (simp add: destroyTerminal_def Let_def releaseIndex_def split: option.splits)

lemma createPanelTerminal_index:
  assumes "spawn h newId cwd = SpawnOk"
  shows "\<exists>inst'. map_of (terminals (snd (createPanelTerminal h newId cwd s))) newId = Some inst'
      \<and> index inst' = Some (getNextIndex_loop (usedIndices s) 1)
      \<and> fst (createPanelTerminal h newId cwd s) = Some newId"
  using assms
  by (simp add: createPanelTerminal_def Let_def split_beta update_conv' newPanelInstance_def)
    (simp add: getNextIndex_def Let_def)

lemma postToTerminal_terminals [simp]: "terminals (postToTerminal i m s) = terminals s"
  by (simp add: postToTerminal_def split: option.splits)

lemma handleOSC9Notification_terminals [simp]: "terminals (handleOSC9Notification h m s) = terminals s"
  by (simp add: handleOSC9Notification_def)

lemma handlePtyData_throws:
  "map_of (terminals s) i = Some inst \<Longrightarrow> parseOSC7 h d = Inl e \<Longrightarrow> handlePtyData h i d s = Inl e"
  by (simp add: handlePtyData_def)

lemma isPanel_delete:
  "terminals s' = AList.delete i (terminals s) \<Longrightarrow> isPanel s' t = (t \<noteq> i \<and> isPanel s t)"
  by (simp add: isPanel_def delete_conv')

lemma getTerminalIds_cong:
  "terminals s' = terminals s \<Longrightarrow> terminalOrder s' = terminalOrder s \<Longrightarrow> getTerminalIds s' = getTerminalIds s"
  by (simp add: getTerminalIds_def isPanel_def [abs_def])

lemma panelTerminals_cong:
  "terminals s' = terminals s \<Longrightarrow> panelTerminals s' = panelTerminals s"
  by (simp add: panelTerminals_def)

lemma destroyTerminal_terminals:
  "map_of (terminals s) i = Some inst \<Longrightarrow> terminals (destroyTerminal i s) = AList.delete i (terminals s)"
  by (simp add: destroyTerminal_def Let_def)

lemma destroyTerminal_terminalOrder:
  "map_of (terminals s) i = Some inst \<Longrightarrow> terminalOrder (destroyTerminal i s) = remove1 i (terminalOrder s)"
  by (simp add: destroyTerminal_def Let_def removeFirst_remove1)

lemma destroyTerminal_unknown: "map_of (terminals s) i = None \<Longrightarrow> destroyTerminal i s = s"
  by (simp add: destroyTerminal_def)

lemma createPanelTerminalForSplit_active [simp]:
  "activeTerminalId (snd (createPanelTerminalForSplit h newId cwd a s)) = activeTerminalId s"
  by (simp add: createPanelTerminalForSplit_def Let_def split_beta)

lemma createPanelTerminalForSplit_posted:
  "posted (snd (createPanelTerminalForSplit h newId cwd a s)) =
     posted s @ (if spawn h newId cwd = SpawnOk
                 then [AddTab newId (''Terminal '' @ string_of_int (fst (getNextIndex s))) False None None None (Some a)]
                 else [])"
  by (simp add: createPanelTerminalForSplit_def Let_def split_beta)

lemma createPanelTerminalForSplit_result:
  "fst (createPanelTerminalForSplit h newId cwd a s) = (if spawn h newId cwd = SpawnOk then Some newId else None)"
  by (simp add: createPanelTerminalForSplit_def Let_def split_beta)

lemma indexOf_first: "a \<notin> set ys \<Longrightarrow> indexOf (ys @ a # zs) a = Some (length ys)"
  by (induction ys) auto

lemma insertAfterOrPush_found:
  assumes "a \<notin> set ys"
  shows "insertAfterOrPush a x (ys @ a # zs) = ys @ a # x # zs"
  using assms by (simp add: insertAfterOrPush_def indexOf_first splice_insert_def)

lemma insertAfterOrPush_missing: "a \<notin> set xs \<Longrightarrow> insertAfterOrPush a x xs = xs @ [x]"
  by (simp add: insertAfterOrPush_def indexOf_None_iff [THEN iffD2])

lemma map_of_fold_delete:
  "map_of (fold AList.delete ks al) k = (if k \<in> set ks then None else map_of al k)"
proof (induction ks arbitrary: al)
  case Nil
  show ?case by simp
next
  case (Cons x xs)
  show ?case by (simp add: Cons.IH delete_conv')
qed

lemma dissolveOrUpdate_fields [simp]:
  "terminals (dissolveOrUpdate g ts s) = terminals s"
  "terminalOrder (dissolveOrUpdate g ts s) = terminalOrder s"
  "activeTerminalId (dissolveOrUpdate g ts s) = activeTerminalId s"
  "usedIndices (dissolveOrUpdate g ts s) = usedIndices s"
  "hostLog (dissolveOrUpdate g ts s) = hostLog s"
  "workspaceState (dissolveOrUpdate g ts s) = workspaceState s"
  by (simp_all add: dissolveOrUpdate_def)

lemma dissolveOrUpdate_groups:
  "groups (dissolveOrUpdate g ts s) = (if length ts \<le> 1 then AList.delete g (groups s) else groups s)"
  by (simp add: dissolveOrUpdate_def)

lemma dissolveOrUpdate_terminalToGroup:
  "terminalToGroup (dissolveOrUpdate g ts s) =
     (if length ts \<le> 1 then fold AList.delete ts (terminalToGroup s) else terminalToGroup s)"
  by (simp add: dissolveOrUpdate_def)

lemma handleUnsplitTerminal_unfold:
  assumes "map_of (terminalToGroup s) m = Some g" "g \<noteq> []" "map_of (groups s) g = Some grp"
  shows "handleUnsplitTerminal m s =
     (let ts = remove1 m (terminals_g grp);
          s1 = s\<lparr>groups := AList.update g (grp\<lparr>terminals_g := ts\<rparr>) (groups s),
                 terminalToGroup := AList.delete m (terminalToGroup s)\<rparr>;
          order1 = remove1 m (terminalOrder s);
          order2 = (if ts \<noteq> [] \<and> last ts \<noteq> [] then insertAfterOrPush (last ts) m order1 else order1 @ [m]);
          s3 = dissolveOrUpdate g ts (s1\<lparr>terminalOrder := order2\<rparr>)
      in savePersistedState (postMessage (ReorderTerminals order2) (postMessage (UnsplitTerminal m) s3)))"
  using assms by (simp add: handleUnsplitTerminal_def Let_def removeFirst_remove1)

lemma leaveGroup_posted:
  "\<exists>new. posted (leaveGroup i s) = posted s @ new
      \<and> (\<forall>m \<in> set new. (\<exists>g. m = GroupDestroyed g) \<or> (\<exists>g. m = GroupCreated g))"
  by (simp add: leaveGroup_def Let_def split: option.splits)

lemma panelTerminals_delete_empty:
  assumes "\<forall>(k, t) \<in> set al. location t = Panel \<longrightarrow> k = i"
  shows "filter (\<lambda>t. location t = Panel) (map snd (AList.delete i al)) = []"
  using assms by (induction al) (auto simp: AList.delete_eq)

lemma createPanelTerminalForSplit_groups [simp]:
  "groups (snd (createPanelTerminalForSplit h newId cwd a s)) = groups s"
  "terminalToGroup (snd (createPanelTerminalForSplit h newId cwd a s)) = terminalToGroup s"
  by (simp_all add: createPanelTerminalForSplit_def Let_def split_beta)

lemma postMessage_persisted [simp]:
  "persistedTerminals (postMessage m s) = persistedTerminals s"
  "listWidth (postMessage m s) = listWidth s"
  by (simp_all add: postMessage_def)

lemma createPanelTerminal_posted:
  "\<exists>new. posted (snd (createPanelTerminal h newId cwd s)) = posted s @ new"
  by (simp add: createPanelTerminal_def Let_def split_beta)

lemma posted_fold_announceGroup:
  "posted (fold announceGroup gs s)
     = posted s @ map (\<lambda>g. GroupCreated \<lparr>id_g = id_g g, terminals_g = terminals_g g\<rparr>) gs"
  by (induction gs arbitrary: s) (simp_all add: announceGroup_def)

lemma createPanelTerminalForHydration_groups [simp]:
  "groups (snd (createPanelTerminalForHydration h p s)) = groups s"
  by (simp add: createPanelTerminalForHydration_def Let_def split_beta split: option.splits)

lemma hydrateOne_groups [simp]: "groups (hydrateOne h p s) = groups s"
  by (simp add: hydrateOne_def Let_def split_beta)

lemma fold_hydrateOne_groups [simp]: "groups (fold (hydrateOne h) ps s) = groups s"
  by (induction ps arbitrary: s) simp_all

section \<open>Evaluating the model on concrete configurations\<close>

text \<open>
  Closed instances are computed by the simplifier from the defining equations. A \<open>let\<close> is
  unfolded only once its bound value is a constructor term, so that every intermediate state
  is computed once.
\<close>

lemma Let_value:
  "\<And>f a b. Let (a, b) f = f (a, b)"
  "\<And>f. Let None f = f None"
  "\<And>f a. Let (Some a) f = f (Some a)"
  "\<And>f. Let [] f = f []"
  "\<And>f a b. Let (a # b) f = f (a # b)"
  "\<And>f. Let True f = f True"
  "\<And>f. Let False f = f False"
  "\<And>f n. Let (numeral n) f = f (numeral n)"
  "\<And>f. Let (0::nat) f = f 0"
  "\<And>f. Let (1::nat) f = f 1"
  "\<And>f. Let (Suc n) f = f (Suc n)"
  "\<And>f. Let (0::int) f = f 0"
  "\<And>f. Let (1::int) f = f 1"
  "\<And>f t g t' o' a w p u po hl ws. Let \<lparr>terminals = t, groups = g, terminalToGroup = t', terminalOrder = o',
      activeTerminalId = a, listWidth = w, persistedTerminals = p, usedIndices = u,
      posted = po, hostLog = hl, workspaceState = ws\<rparr> f
    = f \<lparr>terminals = t, groups = g, terminalToGroup = t', terminalOrder = o',
      activeTerminalId = a, listWidth = w, persistedTerminals = p, usedIndices = u,
      posted = po, hostLog = hl, workspaceState = ws\<rparr>"
  "\<And>f a b c d e g h i j k l m. Let \<lparr>id_t = a, location = b, config_cwd = c, ready = d, dataQueue = e, title = g,
      index = h, icon = i, colorKey = j, color = k, currentCwd = l, readyTimeout = m\<rparr> f
    = f \<lparr>id_t = a, location = b, config_cwd = c, ready = d, dataQueue = e, title = g,
      index = h, icon = i, colorKey = j, color = k, currentCwd = l, readyTimeout = m\<rparr>"
  "\<And>f a b. Let \<lparr>id_g = a, terminals_g = b\<rparr> f = f \<lparr>id_g = a, terminals_g = b\<rparr>"
  by (simp_all add: Let_def)

lemma string_of_int_small:
  "string_of_int 1 = ''1''" "string_of_int 2 = ''2''" "string_of_int 3 = ''3''" "string_of_int 4 = ''4''"
  by (simp_all add: string_of_int_def string_of_nat.simps digit_def)

lemmas eval_defs =
  createPanelTerminal_def createPanelTerminalForSplit_def createPanelTerminalForHydration_def
  handleSplitTerminal_def handleUnsplitTerminal_def handleUnsplitTerminalWithoutReorder_def
  handleJoinTerminal_def destroyTerminal_def leaveGroup_def dissolveOrUpdate_def
  handlePanelReady_def hydrateOne_def announceGroup_def loadPersistedState_def
  getNextIndex_def getNextIndex_loop.simps releaseIndex_def spawnPty_def newPanelInstance_def
  savePersistedState_def persistedOf_def postMessage_def hostCall_def
  getTerminalIds_def isPanel_def panelTerminals_def
  removeFirst_def insertAfterOrPush_def splice_insert_def splice_delete_def
  Set_add_def Set_delete_def string_of_int_small
  initialManager_def hostOk_def Let_value

lemma oneTerminal_eq: "oneTerminal =
  \<lparr>terminals = [(''a'', newPanelInstance ''a'' None ''Terminal 1'' 1\<lparr>readyTimeout := True\<rparr>)],
    groups = [], terminalToGroup = [], terminalOrder = [''a''],
    activeTerminalId = Some ''a'', listWidth = 180,
    persistedTerminals = [], usedIndices = [1],
    posted = [AddTab ''a'' ''Terminal 1'' True None None None None],
    hostLog = [],
    workspaceState = Some
       \<lparr>terminals_w =
          [\<lparr>id_p = ''a'', index_p = Some 1, userTitle = Some ''Terminal 1'',
              icon_p = None, colorKey_p = None, color_p = None,
              groupId_p = None, orderIndex = 0\<rparr>],
          groups_w = [], activeTerminalId_w = Some ''a'', listWidth_w = 180\<rparr>\<rparr>"
  by (simp add: oneTerminal_def eval_defs cong: let_weak_cong)

lemma twoInGroup_eq: "twoInGroup =
  \<lparr>terminals =
    [(''a'', newPanelInstance ''a'' None ''Terminal 1'' 1\<lparr>readyTimeout := True\<rparr>),
     (''b'', newPanelInstance ''b'' None ''Terminal 2'' 2\<lparr>readyTimeout := True\<rparr>)],
    groups = [(''g'', \<lparr>id_g = ''g'', terminals_g = [''a'', ''b'']\<rparr>)],
    terminalToGroup = [(''a'', ''g''), (''b'', ''g'')],
    terminalOrder = [''a'', ''b''], activeTerminalId = Some ''a'',
    listWidth = 180, persistedTerminals = [], usedIndices = [1, 2],
    posted =
      [AddTab ''a'' ''Terminal 1'' True None None None None,
       AddTab ''b'' ''Terminal 2'' False None None None (Some ''a''),
       GroupCreated \<lparr>id_g = ''g'', terminals_g = [''a'', ''b'']\<rparr>,
       SplitTerminal ''b'' ''b'' ''g'' ''a''],
    hostLog = [],
    workspaceState =
      Some
       \<lparr>terminals_w =
          [\<lparr>id_p = ''a'', index_p = Some 1, userTitle = Some ''Terminal 1'',
              icon_p = None, colorKey_p = None, color_p = None,
              groupId_p = Some ''g'', orderIndex = 0\<rparr>,
           \<lparr>id_p = ''b'', index_p = Some 2, userTitle = Some ''Terminal 2'',
              icon_p = None, colorKey_p = None, color_p = None,
              groupId_p = Some ''g'', orderIndex = 1\<rparr>],
          groups_w = [\<lparr>id_g = ''g'', terminals_g = [''a'', ''b'']\<rparr>],
          activeTerminalId_w = Some ''a'', listWidth_w = 180\<rparr>\<rparr>"
  unfolding twoInGroup_def oneTerminal_eq by (simp add: eval_defs cong: let_weak_cong)

lemma threeTerminals_eq: "threeTerminals =
  \<lparr>terminals =
    [(''a'', newPanelInstance ''a'' None ''Terminal 1'' 1\<lparr>readyTimeout := True\<rparr>),
     (''b'', newPanelInstance ''b'' None ''Terminal 2'' 2\<lparr>readyTimeout := True\<rparr>),
     (''c'', newPanelInstance ''c'' None ''Terminal 3'' 3\<lparr>readyTimeout := True\<rparr>)],
    groups = [], terminalToGroup = [],
    terminalOrder = [''a'', ''b'', ''c''], activeTerminalId = Some ''c'',
    listWidth = 180, persistedTerminals = [], usedIndices = [1, 2, 3],
    posted =
      [AddTab ''a'' ''Terminal 1'' True None None None None,
       AddTab ''b'' ''Terminal 2'' True None None None None,
       AddTab ''c'' ''Terminal 3'' True None None None None],
    hostLog = [],
    workspaceState =
      Some
       \<lparr>terminals_w =
          [\<lparr>id_p = ''a'', index_p = Some 1, userTitle = Some ''Terminal 1'',
              icon_p = None, colorKey_p = None, color_p = None,
              groupId_p = None, orderIndex = 0\<rparr>,
           \<lparr>id_p = ''b'', index_p = Some 2, userTitle = Some ''Terminal 2'',
              icon_p = None, colorKey_p = None, color_p = None,
              groupId_p = None, orderIndex = 1\<rparr>,
           \<lparr>id_p = ''c'', index_p = Some 3, userTitle = Some ''Terminal 3'',
              icon_p = None, colorKey_p = None, color_p = None,
              groupId_p = None, orderIndex = 2\<rparr>],
          groups_w = [],
          activeTerminalId_w = Some ''c'', listWidth_w = 180\<rparr>\<rparr>"
  unfolding threeTerminals_def oneTerminal_eq by (simp add: eval_defs cong: let_weak_cong)

lemma restoredAB_eq: "restoredAB =
  \<lparr>terminals = [], groups = [(''g'', \<lparr>id_g = ''g'', terminals_g = [''a'', ''b'']\<rparr>)],
   terminalToGroup = [], terminalOrder = [], activeTerminalId = Some ''b'', listWidth = 180,
   persistedTerminals = terminals_w snapshotAB, usedIndices = [1, 2], posted = [], hostLog = [],
   workspaceState = None\<rparr>"
  by (simp add: restoredAB_def snapshotAB_def eval_defs cong: let_weak_cong)

lemma hydratedB_eq: "hydratedB =
  \<lparr>terminals = [(''b'', newPanelInstance ''b'' None ''Terminal 2'' 2\<lparr>readyTimeout := True\<rparr>)],
   groups = [(''g'', \<lparr>id_g = ''g'', terminals_g = [''a'', ''b'']\<rparr>)],
   terminalToGroup = [(''b'', ''g'')], terminalOrder = [''b''],
   activeTerminalId = Some ''b'', listWidth = 180, persistedTerminals = [], usedIndices = [2],
   posted =
     [HydrateState 180,
      AddTab ''b'' ''Terminal 2'' False None None (Some ''g'') None,
      GroupCreated \<lparr>id_g = ''g'', terminals_g = [''a'', ''b'']\<rparr>,
      ActivateTab ''b'', FocusTerminal],
   hostLog = [ShowErrorMessage ''Failed to start terminal: ENOENT''],
   workspaceState = None\<rparr>"
  unfolding hydratedB_def restoredAB_eq
  by (simp add: snapshotAB_def eval_defs hostWithoutA_def cong: let_weak_cong)

lemma fullQueue_terminals:
  "terminals fullQueue =
     [(''a'', newPanelInstance ''a'' None ''Terminal 1'' 1\<lparr>readyTimeout := True, dataQueue := [''x'', ''y'']\<rparr>)]"
  unfolding fullQueue_def oneTerminal_eq
  by (simp add: buffered_def handlePtyData_def parseOSC7_def parseOSC9_def eval_defs cong: let_weak_cong)

section \<open>Groups have at least two members\<close>

text \<open>Whenever the split of a standalone panel terminal fails to spawn the new terminal, the
  group created for the split stays behind with the source as its only member.\<close>

lemma handleSplitTerminal_spawn_failure:
  assumes src: "map_of (terminals s) source = Some inst"
    and panel: "location inst = Panel"
    and standalone: "\<not> truthy (map_of (terminalToGroup s) source)"
    and failed: "spawn h newId (case currentCwd inst of Some c \<Rightarrow> Some c | None \<Rightarrow> workspaceCwd h) \<noteq> SpawnOk"
  shows "map_of (groups (snd (handleSplitTerminal h newGroupId newId source s))) newGroupId
           = Some \<lparr>id_g = newGroupId, terminals_g = [source]\<rparr>
         \<and> map_of (terminalToGroup (snd (handleSplitTerminal h newGroupId newId source s))) source
           = Some newGroupId"
  using assms
  by (simp add: handleSplitTerminal_def Let_def split_beta createPanelTerminalForSplit_result update_conv')

text \<open>
  C1. Every group in \<open>groups\<close> has at least two members, also right after
  \<^verbatim>\<open>handleSplitTerminal\<close> returns when the new terminal failed to spawn. The code does not keep
  this: \<^verbatim>\<open>handleSplitTerminal\<close> registers the new group \<^verbatim>\<open>[sourceTerminalId]\<close> and the
  source's \<open>terminalToGroup\<close> entry before it calls \<^verbatim>\<open>createPanelTerminalForSplit\<close>, and
  returns without undoing either when that call yields \<^verbatim>\<open>null\<close> (lemma above). Splitting
  the standalone terminal \<open>a\<close> on a host where the new process does not start leaves the
  group \<open>g\<close> with the single member \<open>a\<close>.
\<close>

theorem split_spawn_failure_leaves_singleton_group:
  "fst (handleSplitTerminal hostOnlyA ''g'' ''b'' ''a'' oneTerminal) = None
   \<and> groups (snd (handleSplitTerminal hostOnlyA ''g'' ''b'' ''a'' oneTerminal))
       = [(''g'', \<lparr>id_g = ''g'', terminals_g = [''a'']\<rparr>)]
   \<and> terminalToGroup (snd (handleSplitTerminal hostOnlyA ''g'' ''b'' ''a'' oneTerminal)) = [(''a'', ''g'')]
   \<and> map fst (terminals (snd (handleSplitTerminal hostOnlyA ''g'' ''b'' ''a'' oneTerminal))) = [''a'']"
  unfolding oneTerminal_eq by (simp add: eval_defs hostOnlyA_def cong: let_weak_cong)

section \<open>Destroying the last panel terminal\<close>

text \<open>
  C2 (amended). Destroying the sole remaining panel terminal creates no replacement session:
  \<^verbatim>\<open>destroyTerminal\<close> removes the terminal and nothing else from \<open>terminals\<close>, so that no
  panel terminal is left; \<open>activeTerminalId\<close> becomes \<^verbatim>\<open>null\<close> when the destroyed terminal was
  the selected one; the PTY is killed and the command \<^verbatim>\<open>workbench.action.closePanel\<close> is
  executed; the only messages posted are the group update of the destroyed terminal, if it
  had a group, and \<^verbatim>\<open>remove-tab\<close>.
\<close>

theorem destroy_sole_panel_terminal:
  assumes inst: "map_of (terminals s) i = Some inst"
    and panel: "location inst = Panel"
    and sole: "\<forall>(k, t) \<in> set (terminals s). location t = Panel \<longrightarrow> k = i"
  shows "terminals (destroyTerminal i s) = AList.delete i (terminals s)
       \<and> panelTerminals (destroyTerminal i s) = []
       \<and> activeTerminalId (destroyTerminal i s)
           = (if activeTerminalId s = Some i then None else activeTerminalId s)
       \<and> hostLog (destroyTerminal i s)
           = hostLog s @ [PtyKill i, ExecuteCommand ''workbench.action.closePanel'']
       \<and> (\<exists>new. posted (destroyTerminal i s) = posted s @ new @ [RemoveTab i]
             \<and> (\<forall>m \<in> set new. (\<exists>g. m = GroupDestroyed g) \<or> (\<exists>g. m = GroupCreated g)))"
proof (intro conjI)
  let ?s' = "destroyTerminal i s"
  let ?s3 = "(releaseIndex (index inst) (s\<lparr>terminals := AList.delete i (terminals s)\<rparr>))
      \<lparr>terminalOrder := removeFirst i (terminalOrder s)\<rparr>"
  show t: "terminals ?s' = AList.delete i (terminals s)"
    using inst by (rule destroyTerminal_terminals)
  have none: "filter (\<lambda>t. location t = Panel) (map snd (AList.delete i (terminals s))) = []"
    using sole by (rule panelTerminals_delete_empty)
  then show "panelTerminals ?s' = []"
    by (simp add: panelTerminals_def t)
  have noPanel: "\<not> isPanel (leaveGroup i ?s3) t" for t
  proof
    assume "isPanel (leaveGroup i ?s3) t"
    then obtain x where x: "map_of (AList.delete i (terminals s)) t = Some x" "location x = Panel"
      by (auto simp: isPanel_def split: option.splits)
    then have "(t, x) \<in> set (AList.delete i (terminals s))"
      by (auto dest: map_of_SomeD)
    then have "x \<in> set (filter (\<lambda>t. location t = Panel) (map snd (AList.delete i (terminals s))))"
      using x(2) by force
    with none show False by simp
  qed
  have ids: "getTerminalIds (leaveGroup i ?s3) = []"
    by (simp add: getTerminalIds_def noPanel)
  have pt: "panelTerminals (postMessage (RemoveTab i) (hostCall (PtyKill i) x)) = []"
    if "terminals x = AList.delete i (terminals s)" for x
    using that none by (simp add: panelTerminals_def)
  show "activeTerminalId ?s' = (if activeTerminalId s = Some i then None else activeTerminalId s)"
    using inst panel ids by (simp add: destroyTerminal_def Let_def)
  show "hostLog ?s' = hostLog s @ [PtyKill i, ExecuteCommand ''workbench.action.closePanel'']"
    using inst panel by (simp add: destroyTerminal_def Let_def pt)
  obtain new where new: "posted (leaveGroup i ?s3) = posted ?s3 @ new"
      "\<forall>m \<in> set new. (\<exists>g. m = GroupDestroyed g) \<or> (\<exists>g. m = GroupCreated g)"
    using leaveGroup_posted [of i ?s3] by blast
  have "posted ?s' = posted s @ new @ [RemoveTab i]"
    using inst panel new(1) by (simp add: destroyTerminal_def Let_def pt)
  with new(2) show "\<exists>new. posted ?s' = posted s @ new @ [RemoveTab i]
             \<and> (\<forall>m \<in> set new. (\<exists>g. m = GroupDestroyed g) \<or> (\<exists>g. m = GroupCreated g))"
    by blast
qed

text \<open>The theorem at \<open>oneTerminal\<close>, whose only terminal is \<open>a\<close>.\<close>

theorem destroy_sole_panel_terminal_witness:
  "panelTerminals (destroyTerminal ''a'' oneTerminal) = []
   \<and> activeTerminalId (destroyTerminal ''a'' oneTerminal) = None
   \<and> hostLog (destroyTerminal ''a'' oneTerminal)
       = hostLog oneTerminal @ [PtyKill ''a'', ExecuteCommand ''workbench.action.closePanel'']"
proof -
  have inst: "map_of (terminals oneTerminal) ''a''
      = Some (newPanelInstance ''a'' None ''Terminal 1'' 1\<lparr>readyTimeout := True\<rparr>)"
    by (simp add: oneTerminal_eq)
  have panel: "location (newPanelInstance ''a'' None ''Terminal 1'' 1\<lparr>readyTimeout := True\<rparr>) = Panel"
    by (simp add: newPanelInstance_def)
  have sole: "\<forall>(k, t) \<in> set (terminals oneTerminal). location t = Panel \<longrightarrow> k = ''a''"
    by (simp add: oneTerminal_eq)
  have active: "activeTerminalId oneTerminal = Some ''a''"
    by (simp add: oneTerminal_eq)
  from destroy_sole_panel_terminal [OF inst panel sole] active
  show ?thesis by simp
qed

text \<open>
  The claim as stated, that the destroy is followed at once by exactly one replacement
  session which is selected and focused, fails at \<open>oneTerminal\<close>: after \<open>a\<close> is destroyed no
  session exists, nothing is selected, and only \<^verbatim>\<open>remove-tab\<close> has been posted.
\<close>

theorem destroy_sole_panel_terminal_counterexample:
  "map fst (terminals oneTerminal) = [''a'']
   \<and> activeTerminalId oneTerminal = Some ''a''
   \<and> terminals (destroyTerminal ''a'' oneTerminal) = []
   \<and> activeTerminalId (destroyTerminal ''a'' oneTerminal) = None
   \<and> posted (destroyTerminal ''a'' oneTerminal) = posted oneTerminal @ [RemoveTab ''a'']
   \<and> hostLog (destroyTerminal ''a'' oneTerminal) = [PtyKill ''a'', ExecuteCommand ''workbench.action.closePanel'']"
  unfolding oneTerminal_eq by (simp add: eval_defs cong: let_weak_cong)

section \<open>Joining a group that does not exist\<close>

lemma handleJoinTerminal_standalone_missing_target:
  "\<not> truthy (map_of (terminalToGroup s) t) \<Longrightarrow> map_of (groups s) g = None \<Longrightarrow>
   handleJoinTerminal t g s = s"
  by (simp add: handleJoinTerminal_def split: option.splits)

lemma handleJoinTerminal_grouped_missing_target:
  assumes "map_of (terminals s) t = Some inst" "location inst = Panel"
    and "truthy (map_of (terminalToGroup s) t)"
    and "map_of (groups (handleUnsplitTerminalWithoutReorder t s)) target = None"
  shows "handleJoinTerminal t target s = handleUnsplitTerminalWithoutReorder t s"
  using assms by (simp add: handleJoinTerminal_def Let_def)

text \<open>
  C3. \<^verbatim>\<open>handleJoinTerminal\<close> with a \<open>targetGroupId\<close> that is not in \<open>groups\<close> changes nothing,
  whatever the prior state. For a standalone terminal this holds (first lemma above). For a
  terminal that is a member of another group the code first runs
  \<^verbatim>\<open>handleUnsplitTerminalWithoutReorder\<close> and only then looks the target up, so that the
  call does what that function does (second lemma): in \<open>twoInGroup\<close>,
  joining \<open>a\<close> to the unknown group \<open>nope\<close> dissolves the group \<open>g\<close>, makes both members
  standalone and posts \<^verbatim>\<open>group-destroyed\<close> and \<^verbatim>\<open>unsplit-terminal\<close>, while the stored snapshot
  is not rewritten.
\<close>

theorem join_missing_target_unsplits_member:
  "map_of (groups twoInGroup) ''nope'' = None
   \<and> groups twoInGroup = [(''g'', \<lparr>id_g = ''g'', terminals_g = [''a'', ''b'']\<rparr>)]
   \<and> terminalToGroup twoInGroup = [(''a'', ''g''), (''b'', ''g'')]
   \<and> groups (handleJoinTerminal ''a'' ''nope'' twoInGroup) = []
   \<and> terminalToGroup (handleJoinTerminal ''a'' ''nope'' twoInGroup) = []
   \<and> posted (handleJoinTerminal ''a'' ''nope'' twoInGroup)
       = posted twoInGroup @ [GroupDestroyed ''g'', UnsplitTerminal ''a'']
   \<and> workspaceState (handleJoinTerminal ''a'' ''nope'' twoInGroup) = workspaceState twoInGroup"
  unfolding twoInGroup_eq by (simp add: eval_defs cong: let_weak_cong)

section \<open>Selection and focus in the terminal list\<close>

lemma setSelected_clears_focus: "focusedTerminalId (setSelected i st) = None"
  by (simp add: setSelected_def Let_def)

lemma setActive_keeps_focus: "focusedTerminalId (setActive i st) = focusedTerminalId st"
  by (simp add: setActive_def Let_def)

text \<open>
  C4. Every operation that changes the selected terminal, \<^verbatim>\<open>setSelected\<close> or \<^verbatim>\<open>setActive\<close>,
  leaves \<open>focusedTerminalId\<close> empty. \<^verbatim>\<open>setSelected\<close> does so for every argument and state
  (first lemma above). \<^verbatim>\<open>setActive\<close> replaces the selection by its argument but never writes
  \<open>focusedTerminalId\<close>: with \<open>a\<close> selected and focused, \<^verbatim>\<open>setActive("b")\<close> selects \<open>b\<close> and
  leaves the focus on \<open>a\<close>.
\<close>

theorem setActive_changes_selection_keeps_focus:
  "selectedTerminalIds listFocusedA = [''a'']
   \<and> selectedTerminalIds (setActive (Some ''b'') listFocusedA) = [''b'']
   \<and> focusedTerminalId (setActive (Some ''b'') listFocusedA) = Some ''a''"
  by (simp add: listFocusedA_def setActive_def Set_add_def Let_def)

section \<open>Hydration with a terminal that fails to spawn\<close>

text \<open>Whatever the spawn results, every group of the restored \<open>groups\<close> map is announced
  with the member list it was stored with.\<close>

lemma handlePanelReady_announces_stored_groups:
  assumes "g \<in> set (map snd (groups s))"
  shows "GroupCreated \<lparr>id_g = id_g g, terminals_g = terminals_g g\<rparr> \<in> set (posted (handlePanelReady h newId s))"
proof -
  let ?s1 = "fold (hydrateOne h) (persistedTerminals s) (postMessage (HydrateState (listWidth s)) s)"
  let ?s2 = "fold announceGroup (map snd (groups ?s1)) ?s1"
  have g: "groups ?s1 = groups s" by simp
  have "GroupCreated \<lparr>id_g = id_g g, terminals_g = terminals_g g\<rparr> \<in> set (posted ?s2)"
    using assms unfolding posted_fold_announceGroup g by auto
  moreover obtain new where "posted (handlePanelReady h newId s) = posted ?s2 @ new"
  proof (cases "length (panelTerminals (?s2\<lparr>persistedTerminals := []\<rparr>)) = 0")
    case True
    obtain new where "posted (snd (createPanelTerminal h newId None (?s2\<lparr>persistedTerminals := []\<rparr>)))
        = posted (?s2\<lparr>persistedTerminals := []\<rparr>) @ new"
      using createPanelTerminal_posted by blast
    with True that show ?thesis
      by (simp add: handlePanelReady_def Let_def)
  next
    case False
    then have "posted (handlePanelReady h newId s) = posted ?s2 @ [] \<or>
        posted (handlePanelReady h newId s) = posted ?s2 @ [ActivateTab (the (activeTerminalId s)), FocusTerminal]"
      by (simp add: handlePanelReady_def Let_def)
    with that show ?thesis by blast
  qed
  ultimately show ?thesis by simp
qed

text \<open>
  C5. During hydration a stored terminal whose process fails to spawn is dropped and the
  replay goes on; a stored group that refers to it is announced without that member, and not
  at all when fewer than two members are left. The first part is what \<^verbatim>\<open>handlePanelReady\<close>
  does. The second is not: the loop over \<^verbatim>\<open>this.groups.values()\<close> posts every stored group
  with its stored member list (lemma above). Restoring the snapshot with the group \<open>g\<close> of
  \<open>a\<close> and \<open>b\<close> on a host where \<open>a\<close> does not start creates only \<open>b\<close> (the failure of \<open>a\<close> is reported by
  \<^verbatim>\<open>spawnPty\<close>), yet posts \<^verbatim>\<open>group-created\<close> for \<open>g\<close> with both members and keeps that
  group in \<open>groups\<close>.
\<close>

theorem hydration_announces_group_with_failed_member:
  "map fst (terminals (handlePanelReady hostWithoutA ''n'' restoredAB)) = [''b'']
   \<and> terminalOrder (handlePanelReady hostWithoutA ''n'' restoredAB) = [''b'']
   \<and> posted (handlePanelReady hostWithoutA ''n'' restoredAB)
       = [HydrateState 180,
          AddTab ''b'' ''Terminal 2'' False None None (Some ''g'') None,
          GroupCreated \<lparr>id_g = ''g'', terminals_g = [''a'', ''b'']\<rparr>,
          ActivateTab ''b'', FocusTerminal]
   \<and> hostLog (handlePanelReady hostWithoutA ''n'' restoredAB)
       = [ShowErrorMessage ''Failed to start terminal: ENOENT'']
   \<and> groups (handlePanelReady hostWithoutA ''n'' restoredAB)
       = [(''g'', \<lparr>id_g = ''g'', terminals_g = [''a'', ''b'']\<rparr>)]"
  unfolding restoredAB_eq by (simp add: snapshotAB_def eval_defs hostWithoutA_def cong: let_weak_cong)

section \<open>Unsplitting a group member\<close>

lemma handleUnsplitTerminal_not_member:
  "\<not> truthy (map_of (terminalToGroup s) m) \<Longrightarrow> handleUnsplitTerminal m s = s"
  by (simp add: handleUnsplitTerminal_def)

text \<open>
  C6 (amended). For a group \<open>g\<close> with member \<open>m\<close>, recorded in \<open>terminalToGroup\<close> under a
  non-empty group identifier, \<^verbatim>\<open>handleUnsplitTerminal(m)\<close> removes \<open>m\<close> from the member list
  of \<open>g\<close> and from \<open>terminalToGroup\<close>, and takes \<open>m\<close> out of \<open>terminalOrder\<close>.
  When \<open>g\<close> has a remaining member, and the last of them is a non-empty identifier that occurs
  in the order list, \<open>m\<close> is put back right after it; otherwise \<open>m\<close> is appended at the end
  of the order list. When at most one member remains, \<open>g\<close> is deleted and the remaining
  member, if any, is made standalone.
\<close>

theorem handleUnsplitTerminal_effect:
  assumes tg: "map_of (terminalToGroup s) m = Some g"
    and g: "g \<noteq> []"
    and grp: "map_of (groups s) g = Some grp"
    and mem: "m \<in> set (terminals_g grp)"
  shows "Suc (length (remove1 m (terminals_g grp))) = length (terminals_g grp)
       \<and> map_of (terminalToGroup (handleUnsplitTerminal m s)) m = None
       \<and> (2 \<le> length (remove1 m (terminals_g grp)) \<longrightarrow>
            map_of (groups (handleUnsplitTerminal m s)) g
              = Some (grp\<lparr>terminals_g := remove1 m (terminals_g grp)\<rparr>))
       \<and> (length (remove1 m (terminals_g grp)) \<le> 1 \<longrightarrow>
            map_of (groups (handleUnsplitTerminal m s)) g = None
            \<and> (\<forall>x \<in> set (remove1 m (terminals_g grp)).
                  map_of (terminalToGroup (handleUnsplitTerminal m s)) x = None))
       \<and> (remove1 m (terminals_g grp) \<noteq> []
            \<and> last (remove1 m (terminals_g grp)) \<noteq> []
            \<and> last (remove1 m (terminals_g grp)) \<in> set (remove1 m (terminalOrder s))
           \<longrightarrow> (\<exists>before after.
                 remove1 m (terminalOrder s) = before @ last (remove1 m (terminals_g grp)) # after
                 \<and> last (remove1 m (terminals_g grp)) \<notin> set before
                 \<and> terminalOrder (handleUnsplitTerminal m s)
                     = before @ last (remove1 m (terminals_g grp)) # m # after))
       \<and> (\<not> (remove1 m (terminals_g grp) \<noteq> []
            \<and> last (remove1 m (terminals_g grp)) \<noteq> []
            \<and> last (remove1 m (terminals_g grp)) \<in> set (remove1 m (terminalOrder s)))
           \<longrightarrow> terminalOrder (handleUnsplitTerminal m s) = remove1 m (terminalOrder s) @ [m])"
proof -
  define rest where "rest = remove1 m (terminals_g grp)"
  let ?s' = "handleUnsplitTerminal m s"
  note unf = handleUnsplitTerminal_unfold [OF tg g grp, folded rest_def]
  have len: "Suc (length rest) = length (terminals_g grp)"
  proof -
    from mem have "0 < length (terminals_g grp)"
      by (cases "terminals_g grp") auto
    with mem show ?thesis
      by (simp add: rest_def length_remove1)
  qed
  have m: "map_of (terminalToGroup ?s') m = None"
    by (simp add: unf Let_def dissolveOrUpdate_terminalToGroup map_of_fold_delete delete_conv')
  have keep: "map_of (groups ?s') g = Some (grp\<lparr>terminals_g := rest\<rparr>)" if "2 \<le> length rest"
    using that by (simp add: unf Let_def dissolveOrUpdate_groups update_conv')
  have gone: "map_of (groups ?s') g = None" if "length rest \<le> 1"
    using that by (simp add: unf Let_def dissolveOrUpdate_groups delete_conv')
  have alone: "\<forall>x \<in> set rest. map_of (terminalToGroup ?s') x = None" if "length rest \<le> 1"
    using that by (simp add: unf Let_def dissolveOrUpdate_terminalToGroup map_of_fold_delete)
  have placed: "\<exists>before after.
        remove1 m (terminalOrder s) = before @ last rest # after
        \<and> last rest \<notin> set before
        \<and> terminalOrder ?s' = before @ last rest # m # after"
    if c: "rest \<noteq> [] \<and> last rest \<noteq> [] \<and> last rest \<in> set (remove1 m (terminalOrder s))"
  proof -
    from c obtain before after where
      split: "remove1 m (terminalOrder s) = before @ last rest # after" "last rest \<notin> set before"
      by (auto dest: split_list_first)
    have "terminalOrder ?s' = before @ last rest # m # after"
      using c by (simp add: unf Let_def split insertAfterOrPush_found)
    with split show ?thesis by blast
  qed
  have pushed: "terminalOrder ?s' = remove1 m (terminalOrder s) @ [m]"
    if c: "\<not> (rest \<noteq> [] \<and> last rest \<noteq> [] \<and> last rest \<in> set (remove1 m (terminalOrder s)))"
    using c by (auto simp: unf Let_def insertAfterOrPush_missing)
  from len m keep gone alone placed pushed show ?thesis
    unfolding rest_def by blast
qed

text \<open>The theorem at \<open>twoInGroup\<close>, where unsplitting \<open>b\<close> dissolves the group and leaves \<open>b\<close>
  right after \<open>a\<close>, and at \<open>hydratedB\<close>, where the remaining member \<open>a\<close> is not in the order
  list and \<open>b\<close> is appended.\<close>

theorem handleUnsplitTerminal_effect_witness:
  "(map_of (terminalToGroup (handleUnsplitTerminal ''b'' twoInGroup)) ''b'' = None
    \<and> map_of (groups (handleUnsplitTerminal ''b'' twoInGroup)) ''g'' = None
    \<and> map_of (terminalToGroup (handleUnsplitTerminal ''b'' twoInGroup)) ''a'' = None
    \<and> (\<exists>before after.
          [''a''] = before @ ''a'' # after \<and> ''a'' \<notin> set before
          \<and> terminalOrder (handleUnsplitTerminal ''b'' twoInGroup) = before @ ''a'' # ''b'' # after))
   \<and> (map_of (groups (handleUnsplitTerminal ''b'' hydratedB)) ''g'' = None
    \<and> terminalOrder (handleUnsplitTerminal ''b'' hydratedB) = [''b''])"
proof
  have tg: "map_of (terminalToGroup twoInGroup) ''b'' = Some ''g''"
    by (simp add: twoInGroup_eq)
  have g: "''g'' \<noteq> []"
    by simp
  have grp: "map_of (groups twoInGroup) ''g'' = Some \<lparr>id_g = ''g'', terminals_g = [''a'', ''b'']\<rparr>"
    by (simp add: twoInGroup_eq)
  have mem: "''b'' \<in> set (terminals_g \<lparr>id_g = ''g'', terminals_g = [''a'', ''b'']\<rparr>)"
    by simp
  have order: "terminalOrder twoInGroup = [''a'', ''b'']"
    by (simp add: twoInGroup_eq)
  from handleUnsplitTerminal_effect [OF tg g grp mem] order
  show "map_of (terminalToGroup (handleUnsplitTerminal ''b'' twoInGroup)) ''b'' = None
    \<and> map_of (groups (handleUnsplitTerminal ''b'' twoInGroup)) ''g'' = None
    \<and> map_of (terminalToGroup (handleUnsplitTerminal ''b'' twoInGroup)) ''a'' = None
    \<and> (\<exists>before after.
          [''a''] = before @ ''a'' # after \<and> ''a'' \<notin> set before
          \<and> terminalOrder (handleUnsplitTerminal ''b'' twoInGroup) = before @ ''a'' # ''b'' # after)"
    by simp
next
  have tg: "map_of (terminalToGroup hydratedB) ''b'' = Some ''g''"
    by (simp add: hydratedB_eq)
  have g: "''g'' \<noteq> []"
    by simp
  have grp: "map_of (groups hydratedB) ''g'' = Some \<lparr>id_g = ''g'', terminals_g = [''a'', ''b'']\<rparr>"
    by (simp add: hydratedB_eq)
  have mem: "''b'' \<in> set (terminals_g \<lparr>id_g = ''g'', terminals_g = [''a'', ''b'']\<rparr>)"
    by simp
  have order: "terminalOrder hydratedB = [''b'']"
    by (simp add: hydratedB_eq)
  from handleUnsplitTerminal_effect [OF tg g grp mem] order
  show "map_of (groups (handleUnsplitTerminal ''b'' hydratedB)) ''g'' = None
    \<and> terminalOrder (handleUnsplitTerminal ''b'' hydratedB) = [''b'']"
    by simp
qed

text \<open>
  The claim as stated, that \<open>m\<close> always comes to sit right after the last remaining member,
  fails at \<open>hydratedB\<close>: the last remaining member \<open>a\<close> of \<open>g\<close> is not in \<open>terminalOrder\<close>, the
  lookup \<^verbatim>\<open>indexOf\<close> yields \<^verbatim>\<open>-1\<close>, and \<open>b\<close> is pushed to the end of a list that does not
  contain \<open>a\<close>.
\<close>

theorem handleUnsplitTerminal_counterexample:
  "map_of (terminalToGroup hydratedB) ''b'' = Some ''g''
   \<and> map_of (groups hydratedB) ''g'' = Some \<lparr>id_g = ''g'', terminals_g = [''a'', ''b'']\<rparr>
   \<and> terminalOrder hydratedB = [''b'']
   \<and> terminalOrder (handleUnsplitTerminal ''b'' hydratedB) = [''b'']
   \<and> ''a'' \<notin> set (terminalOrder (handleUnsplitTerminal ''b'' hydratedB))"
  unfolding hydratedB_eq by (simp add: eval_defs cong: let_weak_cong)

section \<open>Ordinal allocation and reuse\<close>

text \<open>
  C7 (amended). \<^verbatim>\<open>getNextIndex\<close> returns the smallest positive integer that is not in
  \<open>usedIndices\<close> and adds it to the set. Destroying a terminal that holds ordinal \<open>n\<close> and then
  creating a panel terminal, with a successful spawn and nothing allocated in between, gives
  the new terminal ordinal \<open>n\<close> again provided every positive integer below \<open>n\<close> is allocated
  at that time; when a smaller ordinal is free, the new terminal gets that one instead.
\<close>

theorem ordinal_allocation_reuse:
  "(1 \<le> fst (getNextIndex s)
    \<and> fst (getNextIndex s) \<notin> set (usedIndices s)
    \<and> (\<forall>k. 1 \<le> k \<and> k < fst (getNextIndex s) \<longrightarrow> k \<in> set (usedIndices s))
    \<and> set (usedIndices (snd (getNextIndex s))) = insert (fst (getNextIndex s)) (set (usedIndices s)))
   \<and> (map_of (terminals s) i = Some inst \<and> index inst = Some n \<and> 1 \<le> n
        \<and> (\<forall>k. 1 \<le> k \<and> k < n \<longrightarrow> k \<in> set (usedIndices s))
        \<and> spawn h newId cwd = SpawnOk
      \<longrightarrow> (\<exists>inst'. map_of (terminals (snd (createPanelTerminal h newId cwd (destroyTerminal i s)))) newId = Some inst'
             \<and> index inst' = Some n))"
proof (intro conjI impI)
  show "1 \<le> fst (getNextIndex s)"
    by (simp add: getNextIndex_def Let_def loop_ge)
  show "fst (getNextIndex s) \<notin> set (usedIndices s)"
    by (simp add: getNextIndex_def Let_def loop_not_used)
  show "\<forall>k. 1 \<le> k \<and> k < fst (getNextIndex s) \<longrightarrow> k \<in> set (usedIndices s)"
    by (auto simp: getNextIndex_def Let_def intro: loop_below_used)
  show "set (usedIndices (snd (getNextIndex s))) = insert (fst (getNextIndex s)) (set (usedIndices s))"
    by (auto simp: getNextIndex_def Let_def Set_add_def)
next
  assume a: "map_of (terminals s) i = Some inst \<and> index inst = Some n \<and> 1 \<le> n
        \<and> (\<forall>k. 1 \<le> k \<and> k < n \<longrightarrow> k \<in> set (usedIndices s))
        \<and> spawn h newId cwd = SpawnOk"
  let ?d = "destroyTerminal i s"
  from a have used: "usedIndices ?d = Set_delete n (usedIndices s)"
    by (simp add: usedIndices_destroyTerminal)
  have "getNextIndex_loop (usedIndices ?d) 1 = n"
  proof (rule loop_smallest_free)
    show "1 \<le> n" using a by simp
    show "n \<notin> set (usedIndices ?d)" by (simp add: used Set_delete_def)
    show "\<forall>k. 1 \<le> k \<and> k < n \<longrightarrow> k \<in> set (usedIndices ?d)"
      using a by (simp add: used Set_delete_def)
  qed
  moreover from a have "spawn h newId cwd = SpawnOk" by simp
  ultimately show "\<exists>inst'. map_of (terminals (snd (createPanelTerminal h newId cwd ?d))) newId = Some inst'
             \<and> index inst' = Some n"
    using createPanelTerminal_index [of h newId cwd ?d] by auto
qed

text \<open>The theorem at \<open>threeTerminals\<close>, whose terminals hold the ordinals 1, 2 and 3:
  destroying the holder of 3 and creating a terminal yields 3 again.\<close>

theorem ordinal_allocation_reuse_witness:
  "map_option index (map_of (terminals threeTerminals) ''c'') = Some (Some 3)
   \<and> map_option index (map_of (terminals (snd (createPanelTerminal hostOk ''d'' None
        (destroyTerminal ''c'' threeTerminals)))) ''d'') = Some (Some 3)"
proof -
  have "map_option index (map_of (terminals threeTerminals) ''c'') = Some (Some 3)"
    by code_simp
  then obtain inst where c: "map_of (terminals threeTerminals) ''c'' = Some inst" and n: "index inst = Some 3"
    by auto
  have used: "usedIndices threeTerminals = [1, 2, 3]"
    by code_simp
  have below: "\<forall>k::int. 1 \<le> k \<and> k < 3 \<longrightarrow> k \<in> set (usedIndices threeTerminals)"
    unfolding used by auto
  have ok: "spawn hostOk ''d'' None = SpawnOk"
    by (simp add: hostOk_def)
  from ordinal_allocation_reuse [of threeTerminals "''c''" inst 3 hostOk "''d''" None] c n below ok
  show ?thesis by auto
qed

text \<open>
  The claim as stated fails when a smaller ordinal is free: after the terminal with ordinal 1
  has been destroyed, destroying the terminal with ordinal 3 and creating a new one yields
  ordinal 1, not 3.
\<close>

theorem ordinal_reuse_counterexample:
  "map_option index (map_of (terminals (destroyTerminal ''a'' threeTerminals)) ''c'') = Some (Some 3)
   \<and> map_option index (map_of (terminals (snd (createPanelTerminal hostOk ''d'' None
        (destroyTerminal ''c'' (destroyTerminal ''a'' threeTerminals))))) ''d'') = Some (Some 1)"
  by code_simp

section \<open>Buffering PTY output until the terminal is ready\<close>

text \<open>
  When \<^verbatim>\<open>parseOSC7\<close> returns, \<^verbatim>\<open>handlePtyData\<close> on a session that is not ready appends the
  chunk exactly when the queue holds fewer than \<^verbatim>\<open>MAX_DATA_QUEUE_SIZE\<close> chunks and otherwise
  leaves the queue as it is; a queue within the cap stays within the cap, and the chunks
  already buffered stay in place as a prefix of the new queue.
\<close>

lemma handlePtyData_buffers_when_parse_returns:
  assumes inst: "map_of (terminals s) i = Some inst"
    and notready: "\<not> ready inst"
    and parsed: "parseOSC7 h d = Inr cwd"
  shows "\<exists>s' inst'. handlePtyData h i d s = Inr s'
           \<and> map_of (terminals s') i = Some inst'
           \<and> \<not> ready inst'
           \<and> dataQueue inst' = (if length (dataQueue inst) < MAX_DATA_QUEUE_SIZE h
                                 then dataQueue inst @ [d] else dataQueue inst)
           \<and> (length (dataQueue inst) \<le> MAX_DATA_QUEUE_SIZE h
                \<longrightarrow> length (dataQueue inst') \<le> MAX_DATA_QUEUE_SIZE h)
           \<and> prefix (dataQueue inst) (dataQueue inst')"
proof (cases "truthy cwd")
  case True
  with inst notready parsed show ?thesis
    by (simp add: handlePtyData_def Let_def update_conv')
next
  case False
  with inst notready parsed show ?thesis
    by (simp add: handlePtyData_def Let_def update_conv')
qed

text \<open>On a host with a cap of two: the first chunk is appended to the empty queue of
  \<open>oneTerminal\<close>, the third chunk is dropped at \<open>fullQueue\<close>.\<close>

lemma handlePtyData_buffering_examples:
  "(\<exists>s' inst'. handlePtyData hostOk ''a'' ''x'' oneTerminal = Inr s'
      \<and> map_of (terminals s') ''a'' = Some inst'
      \<and> dataQueue inst' = [''x''])
   \<and> (\<exists>s' inst'. handlePtyData hostOk ''a'' ''z'' fullQueue = Inr s'
      \<and> map_of (terminals s') ''a'' = Some inst'
      \<and> dataQueue inst' = [''x'', ''y''])"
proof
  have inst: "map_of (terminals oneTerminal) ''a''
      = Some (newPanelInstance ''a'' None ''Terminal 1'' 1\<lparr>readyTimeout := True\<rparr>)"
    by (simp add: oneTerminal_eq)
  have notready: "\<not> ready (newPanelInstance ''a'' None ''Terminal 1'' 1\<lparr>readyTimeout := True\<rparr>)"
    by (simp add: newPanelInstance_def)
  have parsed: "parseOSC7 hostOk ''x'' = Inr None"
    by (simp add: parseOSC7_def hostOk_def)
  from handlePtyData_buffers_when_parse_returns [OF inst notready parsed]
  show "\<exists>s' inst'. handlePtyData hostOk ''a'' ''x'' oneTerminal = Inr s'
      \<and> map_of (terminals s') ''a'' = Some inst'
      \<and> dataQueue inst' = [''x'']"
    by (auto simp: newPanelInstance_def hostOk_def)
next
  have inst: "map_of (terminals fullQueue) ''a''
      = Some (newPanelInstance ''a'' None ''Terminal 1'' 1\<lparr>readyTimeout := True, dataQueue := [''x'', ''y'']\<rparr>)"
    by (simp add: fullQueue_terminals)
  have notready: "\<not> ready (newPanelInstance ''a'' None ''Terminal 1'' 1\<lparr>readyTimeout := True, dataQueue := [''x'', ''y'']\<rparr>)"
    by (simp add: newPanelInstance_def)
  have parsed: "parseOSC7 hostOk ''z'' = Inr None"
    by (simp add: parseOSC7_def hostOk_def)
  from handlePtyData_buffers_when_parse_returns [OF inst notready parsed]
  show "\<exists>s' inst'. handlePtyData hostOk ''a'' ''z'' fullQueue = Inr s'
      \<and> map_of (terminals s') ''a'' = Some inst'
      \<and> dataQueue inst' = [''x'', ''y'']"
    by (auto simp: newPanelInstance_def hostOk_def)
qed

text \<open>
  C8. For a session that is not ready, \<^verbatim>\<open>handlePtyData\<close> appends the chunk to \<open>dataQueue\<close> if
  and only if the queue holds fewer than \<^verbatim>\<open>MAX_DATA_QUEUE_SIZE\<close> chunks. The code does not
  keep this for every chunk: \<^verbatim>\<open>parseOSC7\<close> runs before the queue is touched and passes the
  matched path to \<^verbatim>\<open>decodeURIComponent\<close> without a \<^verbatim>\<open>try\<close>, so a chunk whose OSC 7 path
  holds a malformed percent escape makes \<^verbatim>\<open>handlePtyData\<close> throw \<^verbatim>\<open>URIError\<close> before the push.
  With terminal \<open>a\<close> not ready, its queue empty and a cap of two, the chunk is not buffered.
\<close>

theorem handlePtyData_malformed_osc7_loses_chunk:
  "map_option ready (map_of (terminals oneTerminal) ''a'') = Some False
   \<and> map_option dataQueue (map_of (terminals oneTerminal) ''a'') = Some []
   \<and> MAX_DATA_QUEUE_SIZE hostMalformed = 2
   \<and> handlePtyData hostMalformed ''a'' malformedChunk oneTerminal = Inl URIError"
  by (simp add: oneTerminal_eq newPanelInstance_def hostMalformed_def hostOk_def handlePtyData_def parseOSC7_def)

section \<open>A split leaves the selection alone\<close>

text \<open>
  C9. \<^verbatim>\<open>handleSplitTerminal\<close> leaves \<open>activeTerminalId\<close> as it was, for every prior state and
  source terminal and whether or not the new terminal's spawn succeeds, and the new terminal
  is not selected: none of the messages the call posts is an \<^verbatim>\<open>add-tab\<close> with \<^verbatim>\<open>makeActive\<close>,
  an \<^verbatim>\<open>activate-tab\<close> or a \<^verbatim>\<open>focus-terminal\<close>.
\<close>

theorem handleSplitTerminal_keeps_selection:
  "activeTerminalId (snd (handleSplitTerminal h newGroupId newId source s)) = activeTerminalId s
   \<and> (\<exists>new. posted (snd (handleSplitTerminal h newGroupId newId source s)) = posted s @ new
         \<and> (\<forall>m \<in> set new. \<not> selectsOrFocuses m))"
proof (cases "map_of (terminals s) source")
  case None
  then show ?thesis by (simp add: handleSplitTerminal_def)
next
  case (Some src)
  show ?thesis
  proof (cases "location src = Panel")
    case False
    with Some show ?thesis by (simp add: handleSplitTerminal_def)
  next
    case True
    show ?thesis
    proof (cases "truthy (map_of (terminalToGroup s) source)")
      case grouped: True
      show ?thesis
      proof (cases "map_of (groups s) (the (map_of (terminalToGroup s) source))")
        case None
        with Some True grouped show ?thesis
          by (simp add: handleSplitTerminal_def Let_def split_beta createPanelTerminalForSplit_posted
              createPanelTerminalForSplit_result)
      next
        case g: (Some g)
        with Some True grouped show ?thesis
          by (simp add: handleSplitTerminal_def Let_def split_beta createPanelTerminalForSplit_posted
              createPanelTerminalForSplit_result)
      qed
    next
      case standalone: False
      with Some True show ?thesis
        by (simp add: handleSplitTerminal_def Let_def split_beta createPanelTerminalForSplit_posted
            createPanelTerminalForSplit_result)
    qed
  qed
qed

text \<open>The theorem at the split of \<open>a\<close> in \<open>oneTerminal\<close>, which posts three messages.\<close>

theorem handleSplitTerminal_keeps_selection_witness:
  "activeTerminalId (snd (handleSplitTerminal hostOk ''g'' ''b'' ''a'' oneTerminal)) = Some ''a''
   \<and> (\<exists>new. posted twoInGroup = posted oneTerminal @ new \<and> length new = 3
         \<and> (\<forall>m \<in> set new. \<not> selectsOrFocuses m))"
proof -
  have active: "activeTerminalId oneTerminal = Some ''a''"
    by (simp add: oneTerminal_eq)
  have len: "length (posted twoInGroup) = length (posted oneTerminal) + 3"
    by (simp add: twoInGroup_eq oneTerminal_eq)
  from handleSplitTerminal_keeps_selection [of hostOk "''g''" "''b''" "''a''" oneTerminal]
  obtain new where new: "posted twoInGroup = posted oneTerminal @ new"
      "\<forall>m \<in> set new. \<not> selectsOrFocuses m"
    and a: "activeTerminalId (snd (handleSplitTerminal hostOk ''g'' ''b'' ''a'' oneTerminal))
      = activeTerminalId oneTerminal"
    unfolding twoInGroup_def by blast
  from new(1) len have "length new = 3" by simp
  with new a active show ?thesis by auto
qed

section \<open>The selection after a destroy\<close>

text \<open>
  C10. When the destroyed terminal is the selected one, \<^verbatim>\<open>destroyTerminal\<close> sets
  \<open>activeTerminalId\<close> to the last panel terminal of the remaining order list, or to \<^verbatim>\<open>null\<close> when
  no panel terminal remains; destroying any other terminal leaves \<open>activeTerminalId\<close> as it
  was. The remaining order list is \<open>terminalOrder\<close> without the destroyed terminal.
\<close>

theorem destroyTerminal_reassigns_active:
  assumes inst: "map_of (terminals s) i = Some inst"
  shows "getTerminalIds (destroyTerminal i s)
           = filter (\<lambda>t. t \<noteq> i \<and> isPanel s t) (remove1 i (terminalOrder s))
         \<and> activeTerminalId (destroyTerminal i s)
           = (if activeTerminalId s = Some i
              then (if getTerminalIds (destroyTerminal i s) = [] then None
                    else Some (last (getTerminalIds (destroyTerminal i s))))
              else activeTerminalId s)"
proof
  let ?s' = "destroyTerminal i s"
  have t: "terminals ?s' = AList.delete i (terminals s)"
    and o: "terminalOrder ?s' = remove1 i (terminalOrder s)"
    using inst by (rule destroyTerminal_terminals, rule destroyTerminal_terminalOrder)
  show ids: "getTerminalIds ?s' = filter (\<lambda>t. t \<noteq> i \<and> isPanel s t) (remove1 i (terminalOrder s))"
  proof -
    have "isPanel ?s' = (\<lambda>t. t \<noteq> i \<and> isPanel s t)"
      by (rule ext) (rule isPanel_delete [OF t])
    then show ?thesis by (simp add: getTerminalIds_def o)
  qed
  let ?s4 = "leaveGroup i ((releaseIndex (index inst) (s\<lparr>terminals := AList.delete i (terminals s)\<rparr>))
      \<lparr>terminalOrder := removeFirst i (terminalOrder s)\<rparr>)"
  have same: "getTerminalIds ?s4 = getTerminalIds ?s'"
    by (rule getTerminalIds_cong [symmetric]) (simp_all add: t o removeFirst_remove1)
  have "activeTerminalId ?s' =
      (if activeTerminalId s = Some i
       then (if length (getTerminalIds ?s4) > 0 then Some (last (getTerminalIds ?s4)) else None)
       else activeTerminalId s)"
    using inst by (simp add: destroyTerminal_def Let_def)
  then show "activeTerminalId ?s' =
      (if activeTerminalId s = Some i
       then (if getTerminalIds ?s' = [] then None else Some (last (getTerminalIds ?s')))
       else activeTerminalId s)"
    unfolding same by auto
qed

text \<open>The theorem at \<open>threeTerminals\<close>, where \<open>c\<close> is selected: destroying \<open>c\<close> selects \<open>b\<close>.\<close>

theorem destroyTerminal_reassigns_active_witness:
  "activeTerminalId threeTerminals = Some ''c''
   \<and> getTerminalIds (destroyTerminal ''c'' threeTerminals) = [''a'', ''b'']
   \<and> activeTerminalId (destroyTerminal ''c'' threeTerminals) = Some ''b''"
proof -
  have inst: "map_of (terminals threeTerminals) ''c''
      = Some (newPanelInstance ''c'' None ''Terminal 3'' 3\<lparr>readyTimeout := True\<rparr>)"
    by (simp add: threeTerminals_eq)
  have active: "activeTerminalId threeTerminals = Some ''c''"
    by (simp add: threeTerminals_eq)
  have ids: "filter (\<lambda>t. t \<noteq> ''c'' \<and> isPanel threeTerminals t) (remove1 ''c'' (terminalOrder threeTerminals))
      = [''a'', ''b'']"
    by (simp add: threeTerminals_eq isPanel_def newPanelInstance_def)
  from destroyTerminal_reassigns_active [OF inst] active ids
  show ?thesis by simp
qed

end
